theory Spec2Isabelle
  imports Complex_Main
begin

section \<open>Conductance based LIF neuron: one Euler step (norse/torch/functional/coba\_lif.py)\<close>

text \<open>
  The module computes one forward Euler step of a conductance based leaky
  integrate-and-fire neuron, in a recurrent variant (\<open>coba_lif_step\<close>) and a
  feed-forward variant (\<open>coba_lif_feed_forward_step\<close>).

  Modelling decisions.
  \<^item> A tensor element is a \<open>real\<close>: arithmetic is exact, rounding of the machine
    floating point numbers is not modelled.
  \<^item> A state, input or weight tensor is two-dimensional, a list of rows:
    state tensors are \<open>[batch, neurons]\<close>, the input is \<open>[batch, input_features]\<close>,
    the weights are \<open>[neurons, input_features]\<close> and \<open>[neurons, neurons]\<close>.
    A tensor without rows has no columns.
  \<^item> The fields of the parameter tuple are zero-dimensional tensors in the source
    (their defaults are built from Python numbers); they are scalars here, and
    every operation of a scalar with a tensor broadcasts the scalar.
  \<^item> The tensor library raises on shapes that cannot be combined and broadcasts
    the ones that can. Only the common shapes above are modelled: every other
    call is \<open>Inl ShapeMismatch\<close>.
\<close>

subsection \<open>Tensors\<close>

type_synonym tensor = "real list list"

definition tmap :: "(real \<Rightarrow> real) \<Rightarrow> tensor \<Rightarrow> tensor" where
  "tmap f A = map (map f) A"

definition tzip :: "(real \<Rightarrow> real \<Rightarrow> real) \<Rightarrow> tensor \<Rightarrow> tensor \<Rightarrow> tensor" where
  "tzip f A B = map2 (map2 f) A B"

text \<open>
  \<open>c * A\<close>, \<open>c - A\<close>, \<open>A - c\<close> and \<open>A * c\<close> for a scalar \<open>c\<close>;
  \<open>-A\<close>, \<open>A + B\<close> and \<open>A * B\<close> elementwise.
\<close>

definition smul :: "real \<Rightarrow> tensor \<Rightarrow> tensor" where
  "smul c A = tmap (\<lambda>a. c * a) A"

definition ssub :: "real \<Rightarrow> tensor \<Rightarrow> tensor" where
  "ssub c A = tmap (\<lambda>a. c - a) A"

definition tsubs :: "tensor \<Rightarrow> real \<Rightarrow> tensor" where
  "tsubs A c = tmap (\<lambda>a. a - c) A"

definition tmuls :: "tensor \<Rightarrow> real \<Rightarrow> tensor" where
  "tmuls A c = tmap (\<lambda>a. a * c) A"

definition tneg :: "tensor \<Rightarrow> tensor" where
  "tneg A = tmap (\<lambda>a. - a) A"

definition tadd :: "tensor \<Rightarrow> tensor \<Rightarrow> tensor" where
  "tadd A B = tzip (\<lambda>a b. a + b) A B"

definition tmul :: "tensor \<Rightarrow> tensor \<Rightarrow> tensor" where
  "tmul A B = tzip (\<lambda>a b. a * b) A B"

text \<open>\<open>torch.nn.functional.relu\<close>: the elementwise maximum with zero.\<close>

definition relu :: "tensor \<Rightarrow> tensor" where
  "relu A = tmap (\<lambda>a. max a 0) A"

text \<open>
  \<open>torch.nn.functional.linear(x, W)\<close> without bias is \<open>x W\<^sup>T\<close>: entry \<open>(b, n)\<close> is the
  inner product of row \<open>b\<close> of \<open>x\<close> with row \<open>n\<close> of \<open>W\<close>.
\<close>

definition dot :: "real list \<Rightarrow> real list \<Rightarrow> real" where
  "dot xs ws = sum_list (map2 (\<lambda>a w. a * w) xs ws)"

definition linear :: "tensor \<Rightarrow> tensor \<Rightarrow> tensor" where
  "linear x W = map (\<lambda>xr. map (\<lambda>wr. dot xr wr) W) x"

definition has_shape :: "nat \<Rightarrow> nat \<Rightarrow> tensor \<Rightarrow> bool" where
  "has_shape B N A = (length A = B \<and> list_all (\<lambda>r. length r = N) A)"

definition ncols :: "tensor \<Rightarrow> nat" where
  "ncols A = (case A of [] \<Rightarrow> 0 | r # _ \<Rightarrow> length r)"

definition zeros :: "nat \<Rightarrow> nat \<Rightarrow> tensor" where
  "zeros B N = replicate B (replicate N 0)"

definition eye :: "nat \<Rightarrow> tensor" where
  "eye N = map (\<lambda>i. map (\<lambda>j. if i = j then 1 else 0) [0..<N]) [0..<N]"

datatype error = ShapeMismatch

subsection \<open>State and parameters\<close>

record CobaLIFState =
  z :: tensor
  v :: tensor
  g_e :: tensor
  g_i :: tensor

record CobaLIFParameters =
  tau_syn_exc_inv :: real
  tau_syn_inh_inv :: real
  c_m_inv :: real
  g_l :: real
  e_rev_I :: real
  e_rev_E :: real
  v_rest :: real
  v_reset :: real
  v_thresh :: real
  "method" :: string
  alpha :: real

text \<open>The defaults of the tuple, \<open>CobaLIFParameters()\<close>.\<close>

definition CobaLIFParameters_default :: CobaLIFParameters where
  "CobaLIFParameters_default =
     \<lparr> tau_syn_exc_inv = 1 / 5,
       tau_syn_inh_inv = 1 / 5,
       c_m_inv = 1 / (2 / 10),
       g_l = 1 / 20 * 1 / (2 / 10),
       e_rev_I = - 100,
       e_rev_E = 60,
       v_rest = - 20,
       v_reset = - 70,
       v_thresh = - 10,
       method = ''heaviside'',
       alpha = 0 \<rparr>"

text \<open>The default integration time step, \<open>dt = 0.001\<close>.\<close>

definition dt_default :: real where
  "dt_default = 1 / 1000"

record CobaLIFFeedForwardState =
  v :: tensor
  g_e :: tensor
  g_i :: tensor

subsection \<open>The threshold function\<close>

text \<open>
  \<open>threshold\<close> is imported from the sibling module \<open>threshold\<close>, which is not part
  of the sources at hand. Both step functions take it as their first argument
  \<open>thr\<close>, applied to every element of the tensor with the method name and \<open>alpha\<close>.
\<close>

type_synonym threshold_fn = "real \<Rightarrow> string \<Rightarrow> real \<Rightarrow> real"

text \<open>
  Modelled from the spec: the function \<open>threshold(x, method, alpha)\<close> of the module
  \<open>threshold\<close> is missing. Its contract is: elementwise, forward value \<open>1\<close> where
  \<open>x >= 0\<close> else \<open>0\<close>; \<open>method\<close> and \<open>alpha\<close> shape the backward gradient only.
\<close>

definition threshold :: threshold_fn where
  "threshold x m a = (if x \<ge> 0 then 1 else 0)"

subsection \<open>The recurrent step\<close>

text \<open>
  The shapes of the contract: with \<open>N = len(recurrent_weights)\<close> neurons,
  \<open>I\<close> input features and a batch of \<open>B = len(input_tensor)\<close>.
\<close>

definition step_shapes_ok ::
  "tensor \<Rightarrow> CobaLIFState \<Rightarrow> tensor \<Rightarrow> tensor \<Rightarrow> bool" where
  "step_shapes_ok input_tensor state input_weights recurrent_weights =
     (let B = length input_tensor;
          N = length recurrent_weights;
          I = ncols input_weights
      in has_shape B I input_tensor \<and>
         has_shape N I input_weights \<and>
         has_shape N N recurrent_weights \<and>
         has_shape B N (CobaLIFState.z state) \<and>
         has_shape B N (CobaLIFState.v state) \<and>
         has_shape B N (CobaLIFState.g_e state) \<and>
         has_shape B N (CobaLIFState.g_i state))"

definition coba_lif_step ::
  "threshold_fn \<Rightarrow> tensor \<Rightarrow> CobaLIFState \<Rightarrow> tensor \<Rightarrow> tensor \<Rightarrow>
   CobaLIFParameters \<Rightarrow> real \<Rightarrow> error + (tensor \<times> CobaLIFState)" where
  "coba_lif_step thr input_tensor state input_weights recurrent_weights parameters dt =
     (if \<not> step_shapes_ok input_tensor state input_weights recurrent_weights
      then Inl ShapeMismatch
      else
        let dg_e = smul (- dt * tau_syn_exc_inv parameters) (CobaLIFState.g_e state);
            g_e1 = tadd (CobaLIFState.g_e state) dg_e;
            dg_i = smul (- dt * tau_syn_inh_inv parameters) (CobaLIFState.g_i state);
            g_i1 = tadd (CobaLIFState.g_i state) dg_i;

            g_e2 = tadd g_e1 (linear input_tensor (relu input_weights));
            g_i2 = tadd g_i1 (linear input_tensor (relu (tneg input_weights)));

            g_e3 = tadd g_e2 (linear (CobaLIFState.z state) (relu recurrent_weights));
            g_i3 = tadd g_i2 (linear (CobaLIFState.z state) (relu (tneg recurrent_weights)));

            dv = smul (dt * c_m_inv parameters)
                   (tadd
                     (tadd
                       (smul (g_l parameters) (ssub (v_rest parameters) (CobaLIFState.v state)))
                       (tmul g_e3 (ssub (e_rev_E parameters) (CobaLIFState.v state))))
                     (tmul g_i3 (ssub (e_rev_I parameters) (CobaLIFState.v state))));
            v1 = tadd (CobaLIFState.v state) dv;

            z_new = tmap (\<lambda>x. thr x (method parameters) (alpha parameters))
                      (tsubs v1 (v_thresh parameters));
            v2 = tadd (tmul (ssub 1 z_new) v1) (tmuls z_new (v_reset parameters))
        in Inr (z_new,
                \<lparr> CobaLIFState.z = z_new, CobaLIFState.v = v2,
                  CobaLIFState.g_e = g_e3, CobaLIFState.g_i = g_i3 \<rparr>))"

subsection \<open>The feed-forward step\<close>

definition ff_shapes_ok :: "tensor \<Rightarrow> CobaLIFFeedForwardState \<Rightarrow> bool" where
  "ff_shapes_ok input_tensor state =
     (let B = length input_tensor;
          N = ncols input_tensor
      in has_shape B N input_tensor \<and>
         has_shape B N (CobaLIFFeedForwardState.v state) \<and>
         has_shape B N (CobaLIFFeedForwardState.g_e state) \<and>
         has_shape B N (CobaLIFFeedForwardState.g_i state))"

definition coba_lif_feed_forward_step ::
  "threshold_fn \<Rightarrow> tensor \<Rightarrow> CobaLIFFeedForwardState \<Rightarrow>
   CobaLIFParameters \<Rightarrow> real \<Rightarrow> error + (tensor \<times> CobaLIFFeedForwardState)" where
  "coba_lif_feed_forward_step thr input_tensor state parameters dt =
     (if \<not> ff_shapes_ok input_tensor state
      then Inl ShapeMismatch
      else
        let dg_e = smul (- dt * tau_syn_exc_inv parameters) (CobaLIFFeedForwardState.g_e state);
            g_e1 = tadd (CobaLIFFeedForwardState.g_e state) dg_e;
            dg_i = smul (- dt * tau_syn_inh_inv parameters) (CobaLIFFeedForwardState.g_i state);
            g_i1 = tadd (CobaLIFFeedForwardState.g_i state) dg_i;

            g_e2 = tadd g_e1 (relu input_tensor);
            g_i2 = tadd g_i1 (relu (tneg input_tensor));

            dv = smul (dt * c_m_inv parameters)
                   (tadd
                     (tadd
                       (smul (g_l parameters)
                          (ssub (v_rest parameters) (CobaLIFFeedForwardState.v state)))
                       (tmul g_e2 (ssub (e_rev_E parameters) (CobaLIFFeedForwardState.v state))))
                     (tmul g_i2 (ssub (e_rev_I parameters) (CobaLIFFeedForwardState.v state))));
            v1 = tadd (CobaLIFFeedForwardState.v state) dv;

            z_new = tmap (\<lambda>x. thr x (method parameters) (alpha parameters))
                      (tsubs v1 (v_thresh parameters));
            v2 = tadd (tmul (ssub 1 z_new) v1) (tmuls z_new (v_reset parameters))
        in Inr (z_new,
                \<lparr> CobaLIFFeedForwardState.v = v2,
                  CobaLIFFeedForwardState.g_e = g_e2, CobaLIFFeedForwardState.g_i = g_i2 \<rparr>))"

subsection \<open>The recurrent step as the specification words it\<close>

text \<open>
  The specification describes the recurrent step neuron by neuron, as seven steps
  in a fixed order. \<open>coba_lif_step_spec\<close> follows these words: for batch entry \<open>b\<close>
  and neuron \<open>n\<close>,
  \<^enum> decay both conductances, \<open>g_e -= dt * tau_syn_exc_inv * g_e\<close> and
    \<open>g_i -= dt * tau_syn_inh_inv * g_i\<close>;
  \<^enum> project the input through the positive part of the input weights into \<open>g_e\<close>
    and through the positive part of the negated input weights into \<open>g_i\<close>;
  \<^enum> do the same with the previous spikes \<open>state.z\<close> and the recurrent weights;
  \<^enum> update the voltage from the previous voltage \<open>state.v\<close> and the updated
    conductances;
  \<^enum> compute the spike with the threshold function on \<open>v - v_thresh\<close>;
  \<^enum> reset, as the convex combination \<open>(1 - z_new) * v + z_new * v_reset\<close>;
  \<^enum> return \<open>z_new\<close> and the state \<open>(z_new, v, g_e, g_i)\<close>.
\<close>

definition tabulate :: "nat \<Rightarrow> nat \<Rightarrow> (nat \<Rightarrow> nat \<Rightarrow> real) \<Rightarrow> tensor" where
  "tabulate B N f = map (\<lambda>b. map (\<lambda>n. f b n) [0..<N]) [0..<B]"

definition positive_part :: "real \<Rightarrow> real" where
  "positive_part w = max w 0"

definition project :: "real list \<Rightarrow> real list \<Rightarrow> real" where
  "project s ws = (\<Sum>i\<leftarrow>[0..<length ws]. s ! i * ws ! i)"

definition coba_lif_step_spec ::
  "threshold_fn \<Rightarrow> tensor \<Rightarrow> CobaLIFState \<Rightarrow> tensor \<Rightarrow> tensor \<Rightarrow>
   CobaLIFParameters \<Rightarrow> real \<Rightarrow> error + (tensor \<times> CobaLIFState)" where
  "coba_lif_step_spec thr x st W R p dt =
     (if \<not> step_shapes_ok x st W R then Inl ShapeMismatch
      else
        let B = length x;
            N = length R;
            g_e1 = (\<lambda>b n. CobaLIFState.g_e st ! b ! n
                      - dt * tau_syn_exc_inv p * (CobaLIFState.g_e st ! b ! n));
            g_i1 = (\<lambda>b n. CobaLIFState.g_i st ! b ! n
                      - dt * tau_syn_inh_inv p * (CobaLIFState.g_i st ! b ! n));
            g_e2 = (\<lambda>b n. g_e1 b n + project (x ! b) (map positive_part (W ! n)));
            g_i2 = (\<lambda>b n. g_i1 b n + project (x ! b) (map (\<lambda>w. positive_part (- w)) (W ! n)));
            g_e3 = (\<lambda>b n. g_e2 b n
                      + project (CobaLIFState.z st ! b) (map positive_part (R ! n)));
            g_i3 = (\<lambda>b n. g_i2 b n
                      + project (CobaLIFState.z st ! b) (map (\<lambda>w. positive_part (- w)) (R ! n)));
            v4 = (\<lambda>b n. CobaLIFState.v st ! b ! n
                    + dt * c_m_inv p
                      * (g_l p * (v_rest p - CobaLIFState.v st ! b ! n)
                         + g_e3 b n * (e_rev_E p - CobaLIFState.v st ! b ! n)
                         + g_i3 b n * (e_rev_I p - CobaLIFState.v st ! b ! n)));
            z_new = (\<lambda>b n. thr (v4 b n - v_thresh p) (method p) (alpha p));
            v6 = (\<lambda>b n. (1 - z_new b n) * v4 b n + z_new b n * v_reset p)
        in Inr (tabulate B N z_new,
                \<lparr> CobaLIFState.z = tabulate B N z_new, CobaLIFState.v = tabulate B N v6,
                  CobaLIFState.g_e = tabulate B N g_e3, CobaLIFState.g_i = tabulate B N g_i3 \<rparr>))"

subsection \<open>The step, element by element\<close>

text \<open>
  The Euler update of the voltage of one neuron, from its previous voltage \<open>vv\<close> and
  its conductances \<open>ge\<close> and \<open>gi\<close> (lines 96 to 105 and 148 to 157 of the source,
  for one element).
\<close>

definition euler_v :: "CobaLIFParameters \<Rightarrow> real \<Rightarrow> real \<Rightarrow> real \<Rightarrow> real \<Rightarrow> real" where
  "euler_v p dt vv ge gi =
     vv + dt * c_m_inv p * (g_l p * (v_rest p - vv) + ge * (e_rev_E p - vv) + gi * (e_rev_I p - vv))"

text \<open>
  What a step returns, element by element: the shapes of the returned tensors and
  the value of each of their entries. Both predicates are proof devices: the steps
  are shown to satisfy them below.
\<close>

definition step_pointwise ::
  "threshold_fn \<Rightarrow> tensor \<Rightarrow> CobaLIFState \<Rightarrow> tensor \<Rightarrow> tensor \<Rightarrow>
   CobaLIFParameters \<Rightarrow> real \<Rightarrow> tensor \<Rightarrow> CobaLIFState \<Rightarrow> bool" where
  "step_pointwise thr x st W R p dt zn s' \<longleftrightarrow>
     CobaLIFState.z s' = zn \<and>
     has_shape (length x) (length R) zn \<and>
     has_shape (length x) (length R) (CobaLIFState.v s') \<and>
     has_shape (length x) (length R) (CobaLIFState.g_e s') \<and>
     has_shape (length x) (length R) (CobaLIFState.g_i s') \<and>
     (\<forall>b<length x. \<forall>n<length R.
        CobaLIFState.g_e s' ! b ! n =
          CobaLIFState.g_e st ! b ! n
          + (- dt * tau_syn_exc_inv p) * (CobaLIFState.g_e st ! b ! n)
          + dot (x ! b) (map (\<lambda>a. max a 0) (W ! n))
          + dot (CobaLIFState.z st ! b) (map (\<lambda>a. max a 0) (R ! n)) \<and>
        CobaLIFState.g_i s' ! b ! n =
          CobaLIFState.g_i st ! b ! n
          + (- dt * tau_syn_inh_inv p) * (CobaLIFState.g_i st ! b ! n)
          + dot (x ! b) (map (\<lambda>a. max (- a) 0) (W ! n))
          + dot (CobaLIFState.z st ! b) (map (\<lambda>a. max (- a) 0) (R ! n)) \<and>
        zn ! b ! n =
          thr (euler_v p dt (CobaLIFState.v st ! b ! n) (CobaLIFState.g_e s' ! b ! n)
                 (CobaLIFState.g_i s' ! b ! n) - v_thresh p) (method p) (alpha p) \<and>
        CobaLIFState.v s' ! b ! n =
          (1 - zn ! b ! n) * euler_v p dt (CobaLIFState.v st ! b ! n)
             (CobaLIFState.g_e s' ! b ! n) (CobaLIFState.g_i s' ! b ! n)
          + zn ! b ! n * v_reset p)"

definition ff_pointwise ::
  "threshold_fn \<Rightarrow> tensor \<Rightarrow> CobaLIFFeedForwardState \<Rightarrow>
   CobaLIFParameters \<Rightarrow> real \<Rightarrow> tensor \<Rightarrow> CobaLIFFeedForwardState \<Rightarrow> bool" where
  "ff_pointwise thr x st p dt zn s' \<longleftrightarrow>
     has_shape (length x) (ncols x) zn \<and>
     has_shape (length x) (ncols x) (CobaLIFFeedForwardState.v s') \<and>
     has_shape (length x) (ncols x) (CobaLIFFeedForwardState.g_e s') \<and>
     has_shape (length x) (ncols x) (CobaLIFFeedForwardState.g_i s') \<and>
     (\<forall>b<length x. \<forall>n<ncols x.
        CobaLIFFeedForwardState.g_e s' ! b ! n =
          CobaLIFFeedForwardState.g_e st ! b ! n
          + (- dt * tau_syn_exc_inv p) * (CobaLIFFeedForwardState.g_e st ! b ! n)
          + max (x ! b ! n) 0 \<and>
        CobaLIFFeedForwardState.g_i s' ! b ! n =
          CobaLIFFeedForwardState.g_i st ! b ! n
          + (- dt * tau_syn_inh_inv p) * (CobaLIFFeedForwardState.g_i st ! b ! n)
          + max (- (x ! b ! n)) 0 \<and>
        zn ! b ! n =
          thr (euler_v p dt (CobaLIFFeedForwardState.v st ! b ! n)
                 (CobaLIFFeedForwardState.g_e s' ! b ! n)
                 (CobaLIFFeedForwardState.g_i s' ! b ! n) - v_thresh p) (method p) (alpha p) \<and>
        CobaLIFFeedForwardState.v s' ! b ! n =
          (1 - zn ! b ! n) * euler_v p dt (CobaLIFFeedForwardState.v st ! b ! n)
             (CobaLIFFeedForwardState.g_e s' ! b ! n) (CobaLIFFeedForwardState.g_i s' ! b ! n)
          + zn ! b ! n * v_reset p)"

text \<open>A property of every entry of a tensor.\<close>

definition all_entries :: "(real \<Rightarrow> bool) \<Rightarrow> tensor \<Rightarrow> bool" where
  "all_entries P A = list_all (list_all P) A"

text \<open>The weights \<open>W\<close> with the entry of neuron \<open>n\<close> and input \<open>i\<close> set to zero.\<close>

definition without_entry :: "tensor \<Rightarrow> nat \<Rightarrow> nat \<Rightarrow> tensor" where
  "without_entry W n i = W[n := (W ! n)[i := 0]]"

section \<open>Tensor lemmas\<close>

lemmas tensor_ops = smul_def ssub_def tsubs_def tmuls_def tneg_def tadd_def tmul_def relu_def

lemmas tensor_eval = tensor_ops tmap_def tzip_def linear_def dot_def has_shape_def ncols_def
  zeros_def eye_def

lemma has_shape_iff:
  "has_shape B N A \<longleftrightarrow> length A = B \<and> (\<forall>b<B. length (A ! b) = N)"
  by (auto simp add: has_shape_def list_all_length)

lemma tensor_eqI:
  assumes "has_shape B N A" and "has_shape B N C"
    and "\<And>b n. b < B \<Longrightarrow> n < N \<Longrightarrow> A ! b ! n = C ! b ! n"
  shows "A = C"
proof (rule nth_equalityI)
  show "length A = length C"
    using assms(1,2) by (simp add: has_shape_iff)
next
  fix b
  assume "b < length A"
  then have b: "b < B"
    using assms(1) by (simp add: has_shape_iff)
  show "A ! b = C ! b"
  proof (rule nth_equalityI)
    show "length (A ! b) = length (C ! b)"
      using assms(1,2) b by (simp add: has_shape_iff)
  next
    fix n
    assume "n < length (A ! b)"
    then have "n < N"
      using assms(1) b by (simp add: has_shape_iff)
    then show "A ! b ! n = C ! b ! n"
      using b by (rule assms(3)[rotated])
  qed
qed

lemma length_tmap [simp]: "length (tmap f A) = length A"
  by (simp add: tmap_def)

lemma length_tmap_row [simp]: "b < length A \<Longrightarrow> length (tmap f A ! b) = length (A ! b)"
  by (simp add: tmap_def)

lemma nth_tmap [simp]:
  "b < length A \<Longrightarrow> n < length (A ! b) \<Longrightarrow> tmap f A ! b ! n = f (A ! b ! n)"
  by (simp add: tmap_def)

lemma nth_tmap_row: "n < length A \<Longrightarrow> tmap f A ! n = map f (A ! n)"
  by (simp add: tmap_def)

lemma length_tzip [simp]: "length (tzip f A C) = min (length A) (length C)"
  by (simp add: tzip_def)

lemma length_tzip_row [simp]:
  "b < length A \<Longrightarrow> b < length C \<Longrightarrow>
   length (tzip f A C ! b) = min (length (A ! b)) (length (C ! b))"
  by (simp add: tzip_def)

lemma nth_tzip [simp]:
  "b < length A \<Longrightarrow> b < length C \<Longrightarrow> n < length (A ! b) \<Longrightarrow> n < length (C ! b) \<Longrightarrow>
   tzip f A C ! b ! n = f (A ! b ! n) (C ! b ! n)"
  by (simp add: tzip_def)

lemma length_linear [simp]: "length (linear x W) = length x"
  by (simp add: linear_def)

lemma length_linear_row [simp]: "b < length x \<Longrightarrow> length (linear x W ! b) = length W"
  by (simp add: linear_def)

lemma nth_linear [simp]:
  "b < length x \<Longrightarrow> n < length W \<Longrightarrow> linear x W ! b ! n = dot (x ! b) (W ! n)"
  by (simp add: linear_def)

lemma has_shape_tmap [simp]: "has_shape B N (tmap f A) = has_shape B N A"
  by (auto simp add: has_shape_iff)

lemma has_shape_tzip:
  "has_shape B N A \<Longrightarrow> has_shape B N C \<Longrightarrow> has_shape B N (tzip f A C)"
  by (simp add: has_shape_iff)

lemma has_shape_linear:
  "length x = B \<Longrightarrow> length W = N \<Longrightarrow> has_shape B N (linear x W)"
  by (simp add: has_shape_iff)

lemma has_shape_zeros [simp]: "has_shape B N (zeros B N)"
  by (simp add: has_shape_iff zeros_def)

lemma nth_zeros [simp]: "b < B \<Longrightarrow> n < N \<Longrightarrow> zeros B N ! b ! n = 0"
  by (simp add: zeros_def)

subsection \<open>Inner products\<close>

lemma dot_Nil [simp]: "dot [] ws = 0" "dot xs [] = 0"
  by (simp_all add: dot_def)

lemma dot_Cons [simp]: "dot (a # xs) (w # ws) = a * w + dot xs ws"
  by (simp add: dot_def)

lemma dot_update:
  "i < length ws \<Longrightarrow> i < length xs \<Longrightarrow>
   dot xs (ws[i := w]) = dot xs ws + xs ! i * (w - ws ! i)"
proof (induction xs arbitrary: ws i)
  case Nil
  then show ?case by simp
next
  case (Cons a xs)
  then show ?case
    by (cases ws; cases i) (simp_all add: algebra_simps)
qed

lemma dot_nonneg:
  "list_all (\<lambda>a. 0 \<le> a) xs \<Longrightarrow> list_all (\<lambda>a. 0 \<le> a) ws \<Longrightarrow> 0 \<le> dot xs ws"
proof (induction xs arbitrary: ws)
  case Nil
  then show ?case by simp
next
  case (Cons a xs)
  then show ?case by (cases ws) simp_all
qed

lemma dot_zero_right: "list_all (\<lambda>a. a = 0) ws \<Longrightarrow> dot xs ws = 0"
proof (induction xs arbitrary: ws)
  case Nil
  then show ?case by simp
next
  case (Cons a xs)
  then show ?case by (cases ws) simp_all
qed

lemma dot_zero_left: "list_all (\<lambda>a. a = 0) xs \<Longrightarrow> dot xs ws = 0"
proof (induction xs arbitrary: ws)
  case Nil
  then show ?case by simp
next
  case (Cons a xs)
  then show ?case by (cases ws) simp_all
qed

lemma dot_sum_list:
  "length xs = length ws \<Longrightarrow> dot xs ws = (\<Sum>i\<leftarrow>[0..<length ws]. xs ! i * ws ! i)"
proof -
  assume len: "length xs = length ws"
  then have "map2 (\<lambda>a w. a * w) xs ws = map (\<lambda>i. xs ! i * ws ! i) [0..<length ws]"
    by (intro nth_equalityI) simp_all
  then show ?thesis by (simp add: dot_def)
qed

section \<open>The steps, element by element\<close>

lemma step_shapes_okD:
  assumes "step_shapes_ok x st W R"
  shows "length (CobaLIFState.z st) = length x" "length (CobaLIFState.v st) = length x"
    "length (CobaLIFState.g_e st) = length x" "length (CobaLIFState.g_i st) = length x"
    "length W = length R"
    "b < length x \<Longrightarrow> length (CobaLIFState.z st ! b) = length R"
    "b < length x \<Longrightarrow> length (CobaLIFState.v st ! b) = length R"
    "b < length x \<Longrightarrow> length (CobaLIFState.g_e st ! b) = length R"
    "b < length x \<Longrightarrow> length (CobaLIFState.g_i st ! b) = length R"
    "b < length x \<Longrightarrow> length (x ! b) = ncols W"
    "n < length R \<Longrightarrow> length (W ! n) = ncols W"
    "n < length R \<Longrightarrow> length (R ! n) = length R"
  using assms by (simp_all add: step_shapes_ok_def Let_def has_shape_iff)

lemma ff_shapes_okD:
  assumes "ff_shapes_ok x st"
  shows "length (CobaLIFFeedForwardState.v st) = length x"
    "length (CobaLIFFeedForwardState.g_e st) = length x"
    "length (CobaLIFFeedForwardState.g_i st) = length x"
    "b < length x \<Longrightarrow> length (x ! b) = ncols x"
    "b < length x \<Longrightarrow> length (CobaLIFFeedForwardState.v st ! b) = ncols x"
    "b < length x \<Longrightarrow> length (CobaLIFFeedForwardState.g_e st ! b) = ncols x"
    "b < length x \<Longrightarrow> length (CobaLIFFeedForwardState.g_i st ! b) = ncols x"
  using assms by (simp_all add: ff_shapes_ok_def Let_def has_shape_iff)

lemma coba_lif_step_pointwise:
  assumes ok: "step_shapes_ok x st W R"
  shows "\<exists>zn s'. coba_lif_step thr x st W R p dt = Inr (zn, s') \<and>
           step_pointwise thr x st W R p dt zn s'"
  using ok step_shapes_okD[OF ok]
  by (simp add: coba_lif_step_def step_pointwise_def Let_def has_shape_iff tensor_ops
      nth_tmap_row comp_def euler_v_def)

lemma coba_lif_feed_forward_step_pointwise:
  assumes ok: "ff_shapes_ok x st"
  shows "\<exists>zn s'. coba_lif_feed_forward_step thr x st p dt = Inr (zn, s') \<and>
           ff_pointwise thr x st p dt zn s'"
  using ok ff_shapes_okD[OF ok]
  by (simp add: coba_lif_feed_forward_step_def ff_pointwise_def Let_def has_shape_iff
      tensor_ops euler_v_def)

lemma step_pointwiseD:
  assumes "step_pointwise thr x st W R p dt zn s'" and "b < length x" and "n < length R"
  shows "CobaLIFState.g_e s' ! b ! n =
          CobaLIFState.g_e st ! b ! n
          + (- dt * tau_syn_exc_inv p) * (CobaLIFState.g_e st ! b ! n)
          + dot (x ! b) (map (\<lambda>a. max a 0) (W ! n))
          + dot (CobaLIFState.z st ! b) (map (\<lambda>a. max a 0) (R ! n))"
    and "CobaLIFState.g_i s' ! b ! n =
          CobaLIFState.g_i st ! b ! n
          + (- dt * tau_syn_inh_inv p) * (CobaLIFState.g_i st ! b ! n)
          + dot (x ! b) (map (\<lambda>a. max (- a) 0) (W ! n))
          + dot (CobaLIFState.z st ! b) (map (\<lambda>a. max (- a) 0) (R ! n))"
    and "zn ! b ! n =
          thr (euler_v p dt (CobaLIFState.v st ! b ! n) (CobaLIFState.g_e s' ! b ! n)
                 (CobaLIFState.g_i s' ! b ! n) - v_thresh p) (method p) (alpha p)"
    and "CobaLIFState.v s' ! b ! n =
          (1 - zn ! b ! n) * euler_v p dt (CobaLIFState.v st ! b ! n)
             (CobaLIFState.g_e s' ! b ! n) (CobaLIFState.g_i s' ! b ! n)
          + zn ! b ! n * v_reset p"
  using assms by (simp_all add: step_pointwise_def)

lemma step_pointwise_shapes:
  assumes "step_pointwise thr x st W R p dt zn s'"
  shows "CobaLIFState.z s' = zn"
    and "has_shape (length x) (length R) zn"
    and "has_shape (length x) (length R) (CobaLIFState.v s')"
    and "has_shape (length x) (length R) (CobaLIFState.g_e s')"
    and "has_shape (length x) (length R) (CobaLIFState.g_i s')"
  using assms by (simp_all add: step_pointwise_def)

lemma ff_pointwiseD:
  assumes "ff_pointwise thr x st p dt zn s'" and "b < length x" and "n < ncols x"
  shows "CobaLIFFeedForwardState.g_e s' ! b ! n =
          CobaLIFFeedForwardState.g_e st ! b ! n
          + (- dt * tau_syn_exc_inv p) * (CobaLIFFeedForwardState.g_e st ! b ! n)
          + max (x ! b ! n) 0"
    and "CobaLIFFeedForwardState.g_i s' ! b ! n =
          CobaLIFFeedForwardState.g_i st ! b ! n
          + (- dt * tau_syn_inh_inv p) * (CobaLIFFeedForwardState.g_i st ! b ! n)
          + max (- (x ! b ! n)) 0"
    and "zn ! b ! n =
          thr (euler_v p dt (CobaLIFFeedForwardState.v st ! b ! n)
                 (CobaLIFFeedForwardState.g_e s' ! b ! n)
                 (CobaLIFFeedForwardState.g_i s' ! b ! n) - v_thresh p) (method p) (alpha p)"
    and "CobaLIFFeedForwardState.v s' ! b ! n =
          (1 - zn ! b ! n) * euler_v p dt (CobaLIFFeedForwardState.v st ! b ! n)
             (CobaLIFFeedForwardState.g_e s' ! b ! n) (CobaLIFFeedForwardState.g_i s' ! b ! n)
          + zn ! b ! n * v_reset p"
  using assms by (simp_all add: ff_pointwise_def)

lemma ff_pointwise_shapes:
  assumes "ff_pointwise thr x st p dt zn s'"
  shows "has_shape (length x) (ncols x) zn"
    and "has_shape (length x) (ncols x) (CobaLIFFeedForwardState.v s')"
    and "has_shape (length x) (ncols x) (CobaLIFFeedForwardState.g_e s')"
    and "has_shape (length x) (ncols x) (CobaLIFFeedForwardState.g_i s')"
  using assms by (simp_all add: ff_pointwise_def)

lemmas model_eval = coba_lif_step_def coba_lif_feed_forward_step_def step_shapes_ok_def
  ff_shapes_ok_def Let_def tensor_eval euler_v_def threshold_def
  CobaLIFParameters_default_def dt_default_def

subsection \<open>Properties of every entry\<close>

lemma all_entriesD:
  "all_entries P A \<Longrightarrow> b < length A \<Longrightarrow> n < length (A ! b) \<Longrightarrow> P (A ! b ! n)"
  by (simp add: all_entries_def list_all_length)

lemma all_entries_rowD: "all_entries P A \<Longrightarrow> n < length A \<Longrightarrow> list_all P (A ! n)"
  by (simp add: all_entries_def list_all_length)

lemma all_entriesI:
  assumes "has_shape B N A" and "\<And>b n. b < B \<Longrightarrow> n < N \<Longrightarrow> P (A ! b ! n)"
  shows "all_entries P A"
  using assms by (simp add: all_entries_def has_shape_iff list_all_length)

lemma dot_relu_zero:
  assumes "list_all (\<lambda>a. a = 0) ws"
  shows "dot xs (map (\<lambda>a. max a 0) ws) = 0" and "dot xs (map (\<lambda>a. max (- a) 0) ws) = 0"
  using assms by (auto intro!: dot_zero_right simp add: list_all_length)

section \<open>C1: the order of the recurrent step\<close>

lemma has_shape_tabulate [simp]: "has_shape B N (tabulate B N f)"
  by (simp add: has_shape_iff tabulate_def)

lemma nth_tabulate [simp]: "b < B \<Longrightarrow> n < N \<Longrightarrow> tabulate B N f ! b ! n = f b n"
  by (simp add: tabulate_def)

lemma positive_part_eq: "positive_part = (\<lambda>w. max w 0)"
  by (rule ext) (simp add: positive_part_def)

lemma project_dot: "length s = length ws \<Longrightarrow> project s ws = dot s ws"
  by (simp add: project_def dot_sum_list)

lemma coba_lif_step_spec_pointwise:
  assumes ok: "step_shapes_ok x st W R"
  shows "\<exists>zn s'. coba_lif_step_spec thr x st W R p dt = Inr (zn, s') \<and>
           step_pointwise thr x st W R p dt zn s'"
  using ok step_shapes_okD[OF ok]
  by (simp add: coba_lif_step_spec_def step_pointwise_def Let_def project_dot
      positive_part_eq euler_v_def)

lemma step_pointwise_unique:
  assumes a: "step_pointwise thr x st W R p dt zn s'"
    and b: "step_pointwise thr x st W R p dt zn' s''"
  shows "zn = zn' \<and> s' = s''"
proof -
  have ge: "CobaLIFState.g_e s' = CobaLIFState.g_e s''"
    using a b by (intro tensor_eqI[of "length x" "length R"]) (simp_all add: step_pointwise_def)
  have gi: "CobaLIFState.g_i s' = CobaLIFState.g_i s''"
    using a b by (intro tensor_eqI[of "length x" "length R"]) (simp_all add: step_pointwise_def)
  have zz: "zn = zn'"
    using a b ge gi
    by (intro tensor_eqI[of "length x" "length R"]) (simp_all add: step_pointwise_def)
  have vv: "CobaLIFState.v s' = CobaLIFState.v s''"
    using a b ge gi zz
    by (intro tensor_eqI[of "length x" "length R"]) (simp_all add: step_pointwise_def)
  have "CobaLIFState.z s' = CobaLIFState.z s''"
    using a b zz by (simp add: step_pointwise_def)
  with ge gi vv zz show ?thesis by simp
qed

text \<open>
  C1. For every threshold function, input, state, weights, parameters and time step,
  \<open>coba_lif_step\<close> returns what the seven steps of the specification return, in
  their order: decay of both conductances, the sign-routed feed-forward drive, the
  sign-routed recurrent drive from the previous spikes, the voltage update from the
  previous voltage and the updated conductances, the threshold, the reset, and
  the result \<open>z_new\<close> with the state \<open>(z_new, v, g_e, g_i)\<close>. Calls outside the shapes
  of the contract are \<open>Inl ShapeMismatch\<close> on both sides.
\<close>

theorem coba_lif_step_order:
  "coba_lif_step thr x st W R p dt = coba_lif_step_spec thr x st W R p dt"
proof (cases "step_shapes_ok x st W R")
  case False
  then show ?thesis
    by (simp add: coba_lif_step_def coba_lif_step_spec_def)
next
  case True
  from coba_lif_step_pointwise[OF True] obtain zn s'
    where c: "coba_lif_step thr x st W R p dt = Inr (zn, s')"
      and cp: "step_pointwise thr x st W R p dt zn s'"
    by blast
  from coba_lif_step_spec_pointwise[OF True] obtain zn' s''
    where s: "coba_lif_step_spec thr x st W R p dt = Inr (zn', s'')"
      and sp: "step_pointwise thr x st W R p dt zn' s''"
    by blast
  from step_pointwise_unique[OF cp sp] c s show ?thesis by simp
qed

section \<open>C2: the reset\<close>

text \<open>
  C2. In both steps the returned voltage of every neuron is the convex combination
  \<open>(1 - z_new) * v + z_new * v_reset\<close> of the voltage \<open>v\<close> computed by the Euler
  update and the reset potential. So where the spike \<open>z_new\<close> is exactly 1 the
  returned voltage is exactly \<open>v_reset\<close>, whatever the voltage before the reset was,
  and where it is exactly 0 the returned voltage is the one the Euler update
  computed. This holds for every threshold function.
\<close>

theorem reset_exactness:
  "(step_shapes_ok x st W R \<longrightarrow>
      (\<exists>zn s'. coba_lif_step thr x st W R p dt = Inr (zn, s') \<and>
         (\<forall>b<length x. \<forall>n<length R.
            CobaLIFState.v s' ! b ! n =
              (1 - zn ! b ! n) * euler_v p dt (CobaLIFState.v st ! b ! n)
                 (CobaLIFState.g_e s' ! b ! n) (CobaLIFState.g_i s' ! b ! n)
              + zn ! b ! n * v_reset p \<and>
            (zn ! b ! n = 1 \<longrightarrow> CobaLIFState.v s' ! b ! n = v_reset p) \<and>
            (zn ! b ! n = 0 \<longrightarrow>
               CobaLIFState.v s' ! b ! n =
                 euler_v p dt (CobaLIFState.v st ! b ! n)
                   (CobaLIFState.g_e s' ! b ! n) (CobaLIFState.g_i s' ! b ! n))))) \<and>
   (ff_shapes_ok y fs \<longrightarrow>
      (\<exists>zn s'. coba_lif_feed_forward_step thr y fs p dt = Inr (zn, s') \<and>
         (\<forall>b<length y. \<forall>n<ncols y.
            CobaLIFFeedForwardState.v s' ! b ! n =
              (1 - zn ! b ! n) * euler_v p dt (CobaLIFFeedForwardState.v fs ! b ! n)
                 (CobaLIFFeedForwardState.g_e s' ! b ! n)
                 (CobaLIFFeedForwardState.g_i s' ! b ! n)
              + zn ! b ! n * v_reset p \<and>
            (zn ! b ! n = 1 \<longrightarrow> CobaLIFFeedForwardState.v s' ! b ! n = v_reset p) \<and>
            (zn ! b ! n = 0 \<longrightarrow>
               CobaLIFFeedForwardState.v s' ! b ! n =
                 euler_v p dt (CobaLIFFeedForwardState.v fs ! b ! n)
                   (CobaLIFFeedForwardState.g_e s' ! b ! n)
                   (CobaLIFFeedForwardState.g_i s' ! b ! n)))))"
proof (intro conjI impI)
  assume ok: "step_shapes_ok x st W R"
  from coba_lif_step_pointwise[OF ok] obtain zn s'
    where res: "coba_lif_step thr x st W R p dt = Inr (zn, s')"
      and pw: "step_pointwise thr x st W R p dt zn s'"
    by blast
  have "CobaLIFState.v s' ! b ! n =
              (1 - zn ! b ! n) * euler_v p dt (CobaLIFState.v st ! b ! n)
                 (CobaLIFState.g_e s' ! b ! n) (CobaLIFState.g_i s' ! b ! n)
              + zn ! b ! n * v_reset p \<and>
            (zn ! b ! n = 1 \<longrightarrow> CobaLIFState.v s' ! b ! n = v_reset p) \<and>
            (zn ! b ! n = 0 \<longrightarrow>
               CobaLIFState.v s' ! b ! n =
                 euler_v p dt (CobaLIFState.v st ! b ! n)
                   (CobaLIFState.g_e s' ! b ! n) (CobaLIFState.g_i s' ! b ! n))"
    if "b < length x" "n < length R" for b n
    using step_pointwiseD(4)[OF pw that] by simp
  with res show "\<exists>zn s'. coba_lif_step thr x st W R p dt = Inr (zn, s') \<and>
         (\<forall>b<length x. \<forall>n<length R.
            CobaLIFState.v s' ! b ! n =
              (1 - zn ! b ! n) * euler_v p dt (CobaLIFState.v st ! b ! n)
                 (CobaLIFState.g_e s' ! b ! n) (CobaLIFState.g_i s' ! b ! n)
              + zn ! b ! n * v_reset p \<and>
            (zn ! b ! n = 1 \<longrightarrow> CobaLIFState.v s' ! b ! n = v_reset p) \<and>
            (zn ! b ! n = 0 \<longrightarrow>
               CobaLIFState.v s' ! b ! n =
                 euler_v p dt (CobaLIFState.v st ! b ! n)
                   (CobaLIFState.g_e s' ! b ! n) (CobaLIFState.g_i s' ! b ! n)))"
    by blast
next
  assume ok: "ff_shapes_ok y fs"
  from coba_lif_feed_forward_step_pointwise[OF ok] obtain zn s'
    where res: "coba_lif_feed_forward_step thr y fs p dt = Inr (zn, s')"
      and pw: "ff_pointwise thr y fs p dt zn s'"
    by blast
  have "CobaLIFFeedForwardState.v s' ! b ! n =
              (1 - zn ! b ! n) * euler_v p dt (CobaLIFFeedForwardState.v fs ! b ! n)
                 (CobaLIFFeedForwardState.g_e s' ! b ! n)
                 (CobaLIFFeedForwardState.g_i s' ! b ! n)
              + zn ! b ! n * v_reset p \<and>
            (zn ! b ! n = 1 \<longrightarrow> CobaLIFFeedForwardState.v s' ! b ! n = v_reset p) \<and>
            (zn ! b ! n = 0 \<longrightarrow>
               CobaLIFFeedForwardState.v s' ! b ! n =
                 euler_v p dt (CobaLIFFeedForwardState.v fs ! b ! n)
                   (CobaLIFFeedForwardState.g_e s' ! b ! n)
                   (CobaLIFFeedForwardState.g_i s' ! b ! n))"
    if "b < length y" "n < ncols y" for b n
    using ff_pointwiseD(4)[OF pw that] by simp
  with res show "\<exists>zn s'. coba_lif_feed_forward_step thr y fs p dt = Inr (zn, s') \<and>
         (\<forall>b<length y. \<forall>n<ncols y.
            CobaLIFFeedForwardState.v s' ! b ! n =
              (1 - zn ! b ! n) * euler_v p dt (CobaLIFFeedForwardState.v fs ! b ! n)
                 (CobaLIFFeedForwardState.g_e s' ! b ! n)
                 (CobaLIFFeedForwardState.g_i s' ! b ! n)
              + zn ! b ! n * v_reset p \<and>
            (zn ! b ! n = 1 \<longrightarrow> CobaLIFFeedForwardState.v s' ! b ! n = v_reset p) \<and>
            (zn ! b ! n = 0 \<longrightarrow>
               CobaLIFFeedForwardState.v s' ! b ! n =
                 euler_v p dt (CobaLIFFeedForwardState.v fs ! b ! n)
                   (CobaLIFFeedForwardState.g_e s' ! b ! n)
                   (CobaLIFFeedForwardState.g_i s' ! b ! n)))"
    by blast
qed

theorem reset_exactness_witness:
  "step_shapes_ok [[1]]
      \<lparr> CobaLIFState.z = [[0]], CobaLIFState.v = [[- 5]], CobaLIFState.g_e = [[0]],
        CobaLIFState.g_i = [[0]] \<rparr> [[1]] [[0]] \<and>
   ff_shapes_ok [[1]]
      \<lparr> CobaLIFFeedForwardState.v = [[- 30]], CobaLIFFeedForwardState.g_e = [[0]],
        CobaLIFFeedForwardState.g_i = [[0]] \<rparr> \<and>
   (\<exists>zn s'. coba_lif_step threshold [[1]]
      \<lparr> CobaLIFState.z = [[0]], CobaLIFState.v = [[- 5]], CobaLIFState.g_e = [[0]],
        CobaLIFState.g_i = [[0]] \<rparr> [[1]] [[0]] CobaLIFParameters_default dt_default
        = Inr (zn, s') \<and>
      zn ! 0 ! 0 = 1 \<and> CobaLIFState.v s' ! 0 ! 0 = - 70) \<and>
   (\<exists>zn s'. coba_lif_feed_forward_step threshold [[1]]
      \<lparr> CobaLIFFeedForwardState.v = [[- 30]], CobaLIFFeedForwardState.g_e = [[0]],
        CobaLIFFeedForwardState.g_i = [[0]] \<rparr> CobaLIFParameters_default dt_default
        = Inr (zn, s') \<and>
      zn ! 0 ! 0 = 0 \<and>
      CobaLIFFeedForwardState.v s' ! 0 ! 0 = - 30 + 1 / 200 * (5 / 2 + 90))"
  using reset_exactness[of "[[1]]"
      "\<lparr> CobaLIFState.z = [[0]], CobaLIFState.v = [[- 5]], CobaLIFState.g_e = [[0]],
        CobaLIFState.g_i = [[0]] \<rparr>" "[[1]]" "[[0]]" threshold CobaLIFParameters_default
      dt_default "[[1]]"
      "\<lparr> CobaLIFFeedForwardState.v = [[- 30]], CobaLIFFeedForwardState.g_e = [[0]],
        CobaLIFFeedForwardState.g_i = [[0]] \<rparr>"]
  by (simp add: model_eval)

section \<open>C3: sign routing\<close>

lemma has_shape_ncols: "has_shape N I A \<Longrightarrow> 0 < N \<Longrightarrow> ncols A = I"
  by (cases A) (auto simp add: has_shape_def ncols_def)

lemma length_without_entry [simp]: "length (without_entry W n i) = length W"
  by (simp add: without_entry_def)

lemma without_entry_row:
  "m < length W \<Longrightarrow>
   without_entry W n i ! m = (if m = n then (W ! n)[i := 0] else W ! m)"
  by (simp add: without_entry_def nth_list_update)

lemma has_shape_without_entry:
  "has_shape N I W \<Longrightarrow> has_shape N I (without_entry W n i)"
  by (auto simp add: has_shape_iff without_entry_row)

lemma ncols_without_entry:
  assumes "has_shape N I W" and "n < N"
  shows "ncols (without_entry W n i) = I" and "ncols W = I"
proof -
  have "0 < N" using assms(2) by simp
  then show "ncols (without_entry W n i) = I"
    using has_shape_without_entry[OF assms(1)] by (rule has_shape_ncols[rotated])
  show "ncols W = I"
    using assms(1) \<open>0 < N\<close> by (rule has_shape_ncols)
qed

lemma step_shapes_ok_without_input:
  assumes "step_shapes_ok x st W R" and "n < length R"
  shows "step_shapes_ok x st (without_entry W n i) R"
proof -
  have W: "has_shape (length R) (ncols W) W"
    using assms(1) by (simp add: step_shapes_ok_def Let_def)
  have "ncols (without_entry W n i) = ncols W"
    using ncols_without_entry(1)[OF W assms(2)] .
  then show ?thesis
    using assms(1) has_shape_without_entry[OF W, of n i]
    by (simp add: step_shapes_ok_def Let_def)
qed

lemma step_shapes_ok_without_recurrent:
  assumes "step_shapes_ok x st W R"
  shows "step_shapes_ok x st W (without_entry R n j)"
  using assms by (simp add: step_shapes_ok_def Let_def has_shape_without_entry)

lemma dot_map_update_zero:
  assumes "i < length ws" and "i < length xs"
  shows "dot xs (map f (ws[i := 0])) = dot xs (map f ws) + xs ! i * (f 0 - f (ws ! i))"
  using assms by (simp add: map_update dot_update)

text \<open>
  C3. In the recurrent step a weight routes its input by its sign. Compare the step
  with the step in which one entry \<open>(n, i)\<close> of \<open>input_weights\<close> is set to zero.
  If the entry is strictly positive, the returned \<open>g_i\<close> is the same tensor in both
  (the entry contributes nothing to \<open>g_i\<close>), and \<open>g_e\<close> of neuron \<open>n\<close> is larger by
  exactly input times weight, which is an increase for a non-negative input; the
  other neurons are untouched. If the entry is strictly negative, \<open>g_e\<close> is the same
  tensor and \<open>g_i\<close> of neuron \<open>n\<close> is larger by input times the negated weight. The
  same holds for an entry \<open>(n, j)\<close> of \<open>recurrent_weights\<close> and the previous spikes
  \<open>state.z\<close>. In the feed-forward step the input itself is routed: \<open>max(x, 0)\<close> is
  added to \<open>g_e\<close> and \<open>max(-x, 0)\<close> to \<open>g_i\<close>, so a strictly positive input adds
  itself to \<open>g_e\<close> and nothing to \<open>g_i\<close>, and a strictly negative input adds its
  negation to \<open>g_i\<close> and nothing to \<open>g_e\<close>.
\<close>

theorem sign_routing:
  "(step_shapes_ok x st W R \<and> n < length R \<and> i < ncols W \<longrightarrow>
      (\<exists>zn s' z0 s0.
         coba_lif_step thr x st W R p dt = Inr (zn, s') \<and>
         coba_lif_step thr x st (without_entry W n i) R p dt = Inr (z0, s0) \<and>
         (0 < W ! n ! i \<longrightarrow>
            CobaLIFState.g_i s' = CobaLIFState.g_i s0 \<and>
            (\<forall>b<length x.
               CobaLIFState.g_e s' ! b ! n = CobaLIFState.g_e s0 ! b ! n + x ! b ! i * W ! n ! i \<and>
               (0 \<le> x ! b ! i \<longrightarrow> CobaLIFState.g_e s0 ! b ! n \<le> CobaLIFState.g_e s' ! b ! n) \<and>
               (\<forall>m<length R. m \<noteq> n \<longrightarrow>
                  CobaLIFState.g_e s' ! b ! m = CobaLIFState.g_e s0 ! b ! m))) \<and>
         (W ! n ! i < 0 \<longrightarrow>
            CobaLIFState.g_e s' = CobaLIFState.g_e s0 \<and>
            (\<forall>b<length x.
               CobaLIFState.g_i s' ! b ! n
                 = CobaLIFState.g_i s0 ! b ! n + x ! b ! i * (- (W ! n ! i)) \<and>
               (0 \<le> x ! b ! i \<longrightarrow> CobaLIFState.g_i s0 ! b ! n \<le> CobaLIFState.g_i s' ! b ! n) \<and>
               (\<forall>m<length R. m \<noteq> n \<longrightarrow>
                  CobaLIFState.g_i s' ! b ! m = CobaLIFState.g_i s0 ! b ! m))))) \<and>
   (step_shapes_ok x st W R \<and> n < length R \<and> j < length R \<longrightarrow>
      (\<exists>zn s' z0 s0.
         coba_lif_step thr x st W R p dt = Inr (zn, s') \<and>
         coba_lif_step thr x st W (without_entry R n j) p dt = Inr (z0, s0) \<and>
         (0 < R ! n ! j \<longrightarrow>
            CobaLIFState.g_i s' = CobaLIFState.g_i s0 \<and>
            (\<forall>b<length x.
               CobaLIFState.g_e s' ! b ! n
                 = CobaLIFState.g_e s0 ! b ! n + CobaLIFState.z st ! b ! j * R ! n ! j \<and>
               (0 \<le> CobaLIFState.z st ! b ! j \<longrightarrow>
                  CobaLIFState.g_e s0 ! b ! n \<le> CobaLIFState.g_e s' ! b ! n) \<and>
               (\<forall>m<length R. m \<noteq> n \<longrightarrow>
                  CobaLIFState.g_e s' ! b ! m = CobaLIFState.g_e s0 ! b ! m))) \<and>
         (R ! n ! j < 0 \<longrightarrow>
            CobaLIFState.g_e s' = CobaLIFState.g_e s0 \<and>
            (\<forall>b<length x.
               CobaLIFState.g_i s' ! b ! n
                 = CobaLIFState.g_i s0 ! b ! n + CobaLIFState.z st ! b ! j * (- (R ! n ! j)) \<and>
               (0 \<le> CobaLIFState.z st ! b ! j \<longrightarrow>
                  CobaLIFState.g_i s0 ! b ! n \<le> CobaLIFState.g_i s' ! b ! n) \<and>
               (\<forall>m<length R. m \<noteq> n \<longrightarrow>
                  CobaLIFState.g_i s' ! b ! m = CobaLIFState.g_i s0 ! b ! m))))) \<and>
   (ff_shapes_ok y fs \<longrightarrow>
      (\<exists>zn s'. coba_lif_feed_forward_step thr y fs p dt = Inr (zn, s') \<and>
         (\<forall>b<length y. \<forall>m<ncols y.
            CobaLIFFeedForwardState.g_e s' ! b ! m =
              CobaLIFFeedForwardState.g_e fs ! b ! m
              + (- dt * tau_syn_exc_inv p) * (CobaLIFFeedForwardState.g_e fs ! b ! m)
              + max (y ! b ! m) 0 \<and>
            CobaLIFFeedForwardState.g_i s' ! b ! m =
              CobaLIFFeedForwardState.g_i fs ! b ! m
              + (- dt * tau_syn_inh_inv p) * (CobaLIFFeedForwardState.g_i fs ! b ! m)
              + max (- (y ! b ! m)) 0 \<and>
            (0 < y ! b ! m \<longrightarrow>
               CobaLIFFeedForwardState.g_e s' ! b ! m =
                 CobaLIFFeedForwardState.g_e fs ! b ! m
                 + (- dt * tau_syn_exc_inv p) * (CobaLIFFeedForwardState.g_e fs ! b ! m)
                 + y ! b ! m \<and>
               CobaLIFFeedForwardState.g_i s' ! b ! m =
                 CobaLIFFeedForwardState.g_i fs ! b ! m
                 + (- dt * tau_syn_inh_inv p) * (CobaLIFFeedForwardState.g_i fs ! b ! m)) \<and>
            (y ! b ! m < 0 \<longrightarrow>
               CobaLIFFeedForwardState.g_e s' ! b ! m =
                 CobaLIFFeedForwardState.g_e fs ! b ! m
                 + (- dt * tau_syn_exc_inv p) * (CobaLIFFeedForwardState.g_e fs ! b ! m) \<and>
               CobaLIFFeedForwardState.g_i s' ! b ! m =
                 CobaLIFFeedForwardState.g_i fs ! b ! m
                 + (- dt * tau_syn_inh_inv p) * (CobaLIFFeedForwardState.g_i fs ! b ! m)
                 + (- (y ! b ! m))))))"
  (is "(?A1 \<longrightarrow> ?P1) \<and> (?A2 \<longrightarrow> ?P2) \<and> (?A3 \<longrightarrow> ?P3)")
proof (intro conjI impI)
  assume ?A1
  then have ok: "step_shapes_ok x st W R" and n: "n < length R" and i: "i < ncols W"
    by simp_all
  note sh = step_shapes_okD[OF ok]
  have ok0: "step_shapes_ok x st (without_entry W n i) R"
    using ok n by (rule step_shapes_ok_without_input)
  from coba_lif_step_pointwise[OF ok] obtain zn s'
    where r: "coba_lif_step thr x st W R p dt = Inr (zn, s')"
      and rp: "step_pointwise thr x st W R p dt zn s'"
    by blast
  from coba_lif_step_pointwise[OF ok0] obtain z0 s0
    where r0: "coba_lif_step thr x st (without_entry W n i) R p dt = Inr (z0, s0)"
      and rp0: "step_pointwise thr x st (without_entry W n i) R p dt z0 s0"
    by blast
  note shp = step_pointwise_shapes[OF rp] and shp0 = step_pointwise_shapes[OF rp0]
  have nW: "n < length W" using n sh(5) by simp
  have lens: "i < length (W ! n)" "i < length (x ! b)" if "b < length x" for b
    using i n that sh by simp_all
  have other_e: "CobaLIFState.g_e s' ! b ! m = CobaLIFState.g_e s0 ! b ! m"
    and other_i: "CobaLIFState.g_i s' ! b ! m = CobaLIFState.g_i s0 ! b ! m"
    if "b < length x" "m < length R" "m \<noteq> n" for b m
    using step_pointwiseD(1,2)[OF rp that(1,2)] step_pointwiseD(1,2)[OF rp0 that(1,2)]
      that sh(5)
    by (simp_all add: without_entry_row)
  have at_e: "CobaLIFState.g_e s0 ! b ! n =
      CobaLIFState.g_e s' ! b ! n + x ! b ! i * (max 0 0 - max (W ! n ! i) 0)"
    and at_i: "CobaLIFState.g_i s0 ! b ! n =
      CobaLIFState.g_i s' ! b ! n + x ! b ! i * (max (- 0) 0 - max (- (W ! n ! i)) 0)"
    if "b < length x" for b
    using step_pointwiseD(1,2)[OF rp that n] step_pointwiseD(1,2)[OF rp0 that n]
      lens[OF that] nW
    by (simp_all add: without_entry_row dot_map_update_zero)
  have pos: "CobaLIFState.g_i s' = CobaLIFState.g_i s0 \<and>
            (\<forall>b<length x.
               CobaLIFState.g_e s' ! b ! n = CobaLIFState.g_e s0 ! b ! n + x ! b ! i * W ! n ! i \<and>
               (0 \<le> x ! b ! i \<longrightarrow> CobaLIFState.g_e s0 ! b ! n \<le> CobaLIFState.g_e s' ! b ! n) \<and>
               (\<forall>m<length R. m \<noteq> n \<longrightarrow>
                  CobaLIFState.g_e s' ! b ! m = CobaLIFState.g_e s0 ! b ! m))"
    if w: "0 < W ! n ! i"
  proof (intro conjI allI impI)
    show "CobaLIFState.g_i s' = CobaLIFState.g_i s0"
    proof (rule tensor_eqI[OF shp(5) shp0(5)])
      fix b m
      assume "b < length x" "m < length R"
      then show "CobaLIFState.g_i s' ! b ! m = CobaLIFState.g_i s0 ! b ! m"
        using other_i[of b m] at_i[of b] w by (cases "m = n") simp_all
    qed
  next
    fix b assume b: "b < length x"
    have eq: "CobaLIFState.g_e s' ! b ! n = CobaLIFState.g_e s0 ! b ! n + x ! b ! i * W ! n ! i"
      using at_e[OF b] w by (simp add: algebra_simps)
    then show "CobaLIFState.g_e s' ! b ! n = CobaLIFState.g_e s0 ! b ! n + x ! b ! i * W ! n ! i" .
    show "CobaLIFState.g_e s0 ! b ! n \<le> CobaLIFState.g_e s' ! b ! n" if "0 \<le> x ! b ! i"
    proof -
      have "0 \<le> x ! b ! i * W ! n ! i"
        using that w by (simp add: mult_nonneg_nonneg mult_nonneg_nonpos)
      with eq show ?thesis by linarith
    qed
    show "CobaLIFState.g_e s' ! b ! m = CobaLIFState.g_e s0 ! b ! m"
      if "m < length R" "m \<noteq> n" for m
      using other_e[OF b that] .
  qed
  have neg: "CobaLIFState.g_e s' = CobaLIFState.g_e s0 \<and>
            (\<forall>b<length x.
               CobaLIFState.g_i s' ! b ! n
                 = CobaLIFState.g_i s0 ! b ! n + x ! b ! i * (- (W ! n ! i)) \<and>
               (0 \<le> x ! b ! i \<longrightarrow> CobaLIFState.g_i s0 ! b ! n \<le> CobaLIFState.g_i s' ! b ! n) \<and>
               (\<forall>m<length R. m \<noteq> n \<longrightarrow>
                  CobaLIFState.g_i s' ! b ! m = CobaLIFState.g_i s0 ! b ! m))"
    if w: "W ! n ! i < 0"
  proof (intro conjI allI impI)
    show "CobaLIFState.g_e s' = CobaLIFState.g_e s0"
    proof (rule tensor_eqI[OF shp(4) shp0(4)])
      fix b m
      assume "b < length x" "m < length R"
      then show "CobaLIFState.g_e s' ! b ! m = CobaLIFState.g_e s0 ! b ! m"
        using other_e[of b m] at_e[of b] w by (cases "m = n") simp_all
    qed
  next
    fix b assume b: "b < length x"
    have eq: "CobaLIFState.g_i s' ! b ! n
        = CobaLIFState.g_i s0 ! b ! n + x ! b ! i * (- (W ! n ! i))"
      using at_i[OF b] w by (simp add: algebra_simps)
    then show "CobaLIFState.g_i s' ! b ! n
        = CobaLIFState.g_i s0 ! b ! n + x ! b ! i * (- (W ! n ! i))" .
    show "CobaLIFState.g_i s0 ! b ! n \<le> CobaLIFState.g_i s' ! b ! n" if "0 \<le> x ! b ! i"
    proof -
      have "0 \<le> x ! b ! i * (- (W ! n ! i))"
        using that w by (simp add: mult_nonneg_nonneg mult_nonneg_nonpos)
      with eq show ?thesis by linarith
    qed
    show "CobaLIFState.g_i s' ! b ! m = CobaLIFState.g_i s0 ! b ! m"
      if "m < length R" "m \<noteq> n" for m
      using other_i[OF b that] .
  qed
  from r r0 pos neg show ?P1
    by (intro exI[of _ zn] exI[of _ s'] exI[of _ z0] exI[of _ s0]) blast
next
  assume ?A2
  then have ok: "step_shapes_ok x st W R" and n: "n < length R" and j: "j < length R"
    by simp_all
  note sh = step_shapes_okD[OF ok]
  have ok0: "step_shapes_ok x st W (without_entry R n j)"
    using ok by (rule step_shapes_ok_without_recurrent)
  from coba_lif_step_pointwise[OF ok] obtain zn s'
    where r: "coba_lif_step thr x st W R p dt = Inr (zn, s')"
      and rp: "step_pointwise thr x st W R p dt zn s'"
    by blast
  from coba_lif_step_pointwise[OF ok0] obtain z0 s0
    where r0: "coba_lif_step thr x st W (without_entry R n j) p dt = Inr (z0, s0)"
      and rp0: "step_pointwise thr x st W (without_entry R n j) p dt z0 s0"
    by blast
  note shp = step_pointwise_shapes[OF rp]
    and shp0 = step_pointwise_shapes[OF rp0, unfolded length_without_entry]
  note pw0 = step_pointwiseD[OF rp0, unfolded length_without_entry]
  have lens: "j < length (R ! n)" "j < length (CobaLIFState.z st ! b)" if "b < length x" for b
    using j n that sh by simp_all
  have other_e: "CobaLIFState.g_e s' ! b ! m = CobaLIFState.g_e s0 ! b ! m"
    and other_i: "CobaLIFState.g_i s' ! b ! m = CobaLIFState.g_i s0 ! b ! m"
    if "b < length x" "m < length R" "m \<noteq> n" for b m
    using step_pointwiseD(1,2)[OF rp that(1,2)] pw0(1,2)[OF that(1,2)] that
    by (simp_all add: without_entry_row)
  have at_e: "CobaLIFState.g_e s0 ! b ! n =
      CobaLIFState.g_e s' ! b ! n
      + CobaLIFState.z st ! b ! j * (max 0 0 - max (R ! n ! j) 0)"
    and at_i: "CobaLIFState.g_i s0 ! b ! n =
      CobaLIFState.g_i s' ! b ! n
      + CobaLIFState.z st ! b ! j * (max (- 0) 0 - max (- (R ! n ! j)) 0)"
    if "b < length x" for b
    using step_pointwiseD(1,2)[OF rp that n] pw0(1,2)[OF that n] lens[OF that] n
    by (simp_all add: without_entry_row dot_map_update_zero)
  have pos: "CobaLIFState.g_i s' = CobaLIFState.g_i s0 \<and>
            (\<forall>b<length x.
               CobaLIFState.g_e s' ! b ! n
                 = CobaLIFState.g_e s0 ! b ! n + CobaLIFState.z st ! b ! j * R ! n ! j \<and>
               (0 \<le> CobaLIFState.z st ! b ! j \<longrightarrow>
                  CobaLIFState.g_e s0 ! b ! n \<le> CobaLIFState.g_e s' ! b ! n) \<and>
               (\<forall>m<length R. m \<noteq> n \<longrightarrow>
                  CobaLIFState.g_e s' ! b ! m = CobaLIFState.g_e s0 ! b ! m))"
    if w: "0 < R ! n ! j"
  proof (intro conjI allI impI)
    show "CobaLIFState.g_i s' = CobaLIFState.g_i s0"
    proof (rule tensor_eqI[OF shp(5) shp0(5)])
      fix b m
      assume "b < length x" "m < length R"
      then show "CobaLIFState.g_i s' ! b ! m = CobaLIFState.g_i s0 ! b ! m"
        using other_i[of b m] at_i[of b] w by (cases "m = n") simp_all
    qed
  next
    fix b assume b: "b < length x"
    have eq: "CobaLIFState.g_e s' ! b ! n
        = CobaLIFState.g_e s0 ! b ! n + CobaLIFState.z st ! b ! j * R ! n ! j"
      using at_e[OF b] w by (simp add: algebra_simps)
    then show "CobaLIFState.g_e s' ! b ! n
        = CobaLIFState.g_e s0 ! b ! n + CobaLIFState.z st ! b ! j * R ! n ! j" .
    show "CobaLIFState.g_e s0 ! b ! n \<le> CobaLIFState.g_e s' ! b ! n"
      if "0 \<le> CobaLIFState.z st ! b ! j"
    proof -
      have "0 \<le> CobaLIFState.z st ! b ! j * R ! n ! j"
        using that w by (simp add: mult_nonneg_nonneg mult_nonneg_nonpos)
      with eq show ?thesis by linarith
    qed
    show "CobaLIFState.g_e s' ! b ! m = CobaLIFState.g_e s0 ! b ! m"
      if "m < length R" "m \<noteq> n" for m
      using other_e[OF b that] .
  qed
  have neg: "CobaLIFState.g_e s' = CobaLIFState.g_e s0 \<and>
            (\<forall>b<length x.
               CobaLIFState.g_i s' ! b ! n
                 = CobaLIFState.g_i s0 ! b ! n + CobaLIFState.z st ! b ! j * (- (R ! n ! j)) \<and>
               (0 \<le> CobaLIFState.z st ! b ! j \<longrightarrow>
                  CobaLIFState.g_i s0 ! b ! n \<le> CobaLIFState.g_i s' ! b ! n) \<and>
               (\<forall>m<length R. m \<noteq> n \<longrightarrow>
                  CobaLIFState.g_i s' ! b ! m = CobaLIFState.g_i s0 ! b ! m))"
    if w: "R ! n ! j < 0"
  proof (intro conjI allI impI)
    show "CobaLIFState.g_e s' = CobaLIFState.g_e s0"
    proof (rule tensor_eqI[OF shp(4) shp0(4)])
      fix b m
      assume "b < length x" "m < length R"
      then show "CobaLIFState.g_e s' ! b ! m = CobaLIFState.g_e s0 ! b ! m"
        using other_e[of b m] at_e[of b] w by (cases "m = n") simp_all
    qed
  next
    fix b assume b: "b < length x"
    have eq: "CobaLIFState.g_i s' ! b ! n
        = CobaLIFState.g_i s0 ! b ! n + CobaLIFState.z st ! b ! j * (- (R ! n ! j))"
      using at_i[OF b] w by (simp add: algebra_simps)
    then show "CobaLIFState.g_i s' ! b ! n
        = CobaLIFState.g_i s0 ! b ! n + CobaLIFState.z st ! b ! j * (- (R ! n ! j))" .
    show "CobaLIFState.g_i s0 ! b ! n \<le> CobaLIFState.g_i s' ! b ! n"
      if "0 \<le> CobaLIFState.z st ! b ! j"
    proof -
      have "0 \<le> CobaLIFState.z st ! b ! j * (- (R ! n ! j))"
        using that w by (simp add: mult_nonneg_nonneg mult_nonneg_nonpos)
      with eq show ?thesis by linarith
    qed
    show "CobaLIFState.g_i s' ! b ! m = CobaLIFState.g_i s0 ! b ! m"
      if "m < length R" "m \<noteq> n" for m
      using other_i[OF b that] .
  qed
  from r r0 pos neg show ?P2
    by (intro exI[of _ zn] exI[of _ s'] exI[of _ z0] exI[of _ s0]) blast
next
  assume ok: ?A3
  from coba_lif_feed_forward_step_pointwise[OF ok] obtain zn s'
    where r: "coba_lif_feed_forward_step thr y fs p dt = Inr (zn, s')"
      and fp: "ff_pointwise thr y fs p dt zn s'"
    by blast
  show ?P3
    using r ff_pointwiseD(1,2)[OF fp]
    by (intro exI[of _ zn] exI[of _ s']) simp
qed

text \<open>
  Two neurons with two input features, weights of both signs: the input weight
  \<open>3\<close> of neuron 0 adds \<open>2 * 3\<close> to its \<open>g_e\<close> and nothing to any \<open>g_i\<close>; the
  recurrent weight \<open>- 1\<close> of neuron 0 adds \<open>1 * 1\<close> to its \<open>g_i\<close> and nothing to any
  \<open>g_e\<close>; the feed-forward input \<open>[2, - 1]\<close> gives \<open>g_e = [2, 0]\<close> and \<open>g_i = [0, 1]\<close>.
\<close>

theorem sign_routing_witness:
  "step_shapes_ok [[2, 1]]
      \<lparr> CobaLIFState.z = [[1, 1]], CobaLIFState.v = [[- 30, - 30]],
        CobaLIFState.g_e = [[0, 0]], CobaLIFState.g_i = [[0, 0]] \<rparr>
      [[3, - 2], [0, 1]] [[0, - 1], [4, 0]] \<and>
   (0::nat) < length [[0, - 1], [4, 0 :: real]] \<and>
   (0::nat) < ncols [[3, - 2], [0, 1]] \<and>
   (1::nat) < length [[0, - 1], [4, 0 :: real]] \<and>
   ff_shapes_ok [[2, - 1]]
      \<lparr> CobaLIFFeedForwardState.v = [[- 30, - 30]], CobaLIFFeedForwardState.g_e = [[0, 0]],
        CobaLIFFeedForwardState.g_i = [[0, 0]] \<rparr> \<and>
   (\<exists>zn s' z0 s0.
      coba_lif_step threshold [[2, 1]]
        \<lparr> CobaLIFState.z = [[1, 1]], CobaLIFState.v = [[- 30, - 30]],
          CobaLIFState.g_e = [[0, 0]], CobaLIFState.g_i = [[0, 0]] \<rparr>
        [[3, - 2], [0, 1]] [[0, - 1], [4, 0]] CobaLIFParameters_default dt_default
        = Inr (zn, s') \<and>
      coba_lif_step threshold [[2, 1]]
        \<lparr> CobaLIFState.z = [[1, 1]], CobaLIFState.v = [[- 30, - 30]],
          CobaLIFState.g_e = [[0, 0]], CobaLIFState.g_i = [[0, 0]] \<rparr>
        (without_entry [[3, - 2], [0, 1]] 0 0) [[0, - 1], [4, 0]]
        CobaLIFParameters_default dt_default = Inr (z0, s0) \<and>
      CobaLIFState.g_i s' = CobaLIFState.g_i s0 \<and>
      CobaLIFState.g_e s' ! 0 ! 0 = CobaLIFState.g_e s0 ! 0 ! 0 + 2 * 3 \<and>
      CobaLIFState.g_e s' ! 0 ! 1 = CobaLIFState.g_e s0 ! 0 ! 1) \<and>
   (\<exists>zn s' z0 s0.
      coba_lif_step threshold [[2, 1]]
        \<lparr> CobaLIFState.z = [[1, 1]], CobaLIFState.v = [[- 30, - 30]],
          CobaLIFState.g_e = [[0, 0]], CobaLIFState.g_i = [[0, 0]] \<rparr>
        [[3, - 2], [0, 1]] [[0, - 1], [4, 0]] CobaLIFParameters_default dt_default
        = Inr (zn, s') \<and>
      coba_lif_step threshold [[2, 1]]
        \<lparr> CobaLIFState.z = [[1, 1]], CobaLIFState.v = [[- 30, - 30]],
          CobaLIFState.g_e = [[0, 0]], CobaLIFState.g_i = [[0, 0]] \<rparr>
        [[3, - 2], [0, 1]] (without_entry [[0, - 1], [4, 0]] 0 1)
        CobaLIFParameters_default dt_default = Inr (z0, s0) \<and>
      CobaLIFState.g_e s' = CobaLIFState.g_e s0 \<and>
      CobaLIFState.g_i s' ! 0 ! 0 = CobaLIFState.g_i s0 ! 0 ! 0 + 1 * 1) \<and>
   (\<exists>zn s'.
      coba_lif_feed_forward_step threshold [[2, - 1]]
        \<lparr> CobaLIFFeedForwardState.v = [[- 30, - 30]], CobaLIFFeedForwardState.g_e = [[0, 0]],
          CobaLIFFeedForwardState.g_i = [[0, 0]] \<rparr> CobaLIFParameters_default dt_default
        = Inr (zn, s') \<and>
      CobaLIFFeedForwardState.g_e s' = [[2, 0]] \<and>
      CobaLIFFeedForwardState.g_i s' = [[0, 1]])"
  using sign_routing[where thr = threshold and dt = dt_default
      and p = CobaLIFParameters_default
      and x = "[[2, 1]]" and W = "[[3, - 2], [0, 1]]" and R = "[[0, - 1], [4, 0]]"
      and n = 0 and i = 0 and j = 1 and y = "[[2, - 1]]"
      and st = "\<lparr> CobaLIFState.z = [[1, 1]], CobaLIFState.v = [[- 30, - 30]],
          CobaLIFState.g_e = [[0, 0]], CobaLIFState.g_i = [[0, 0]] \<rparr>"
      and fs = "\<lparr> CobaLIFFeedForwardState.v = [[- 30, - 30]],
          CobaLIFFeedForwardState.g_e = [[0, 0]], CobaLIFFeedForwardState.g_i = [[0, 0]] \<rparr>"]
  by (simp add: model_eval without_entry_def)

section \<open>C4: decay of the conductances\<close>

lemma decay_scalar:
  fixes c g :: real
  assumes "0 < c" and "c < 1"
  shows "0 < g \<longrightarrow> 0 < g * (1 - c) \<and> g * (1 - c) < g"
    and "g < 0 \<longrightarrow> g < g * (1 - c) \<and> g * (1 - c) < 0"
proof -
  have eq: "g * (1 - c) = g - c * g"
    by (simp add: algebra_simps)
  show "0 < g \<longrightarrow> 0 < g * (1 - c) \<and> g * (1 - c) < g"
  proof
    assume g: "0 < g"
    have "0 < c * g" using assms(1) g by simp
    moreover have "0 < g * (1 - c)" using assms(2) g by simp
    ultimately show "0 < g * (1 - c) \<and> g * (1 - c) < g"
      unfolding eq by simp
  qed
  show "g < 0 \<longrightarrow> g < g * (1 - c) \<and> g * (1 - c) < 0"
  proof
    assume g: "g < 0"
    have "c * g < 0" using assms(1) g by (simp add: mult_pos_neg)
    moreover have "g * (1 - c) < 0" using assms(2) g by (simp add: mult_neg_pos)
    ultimately show "g < g * (1 - c) \<and> g * (1 - c) < 0"
      unfolding eq by simp
  qed
qed

text \<open>
  C4, amended. With all weights and the input zero, the recurrent step multiplies
  every conductance by \<open>1 - dt * tau_syn_exc_inv\<close> (excitatory) or
  \<open>1 - dt * tau_syn_inh_inv\<close> (inhibitory), for every state; the feed-forward step
  does the same with zero input. Where \<open>0 < dt * tau_inv < 1\<close>, a conductance that is
  not zero moves strictly toward zero and keeps its sign; a conductance that is
  zero stays zero.
\<close>

theorem geometric_decay:
  "(step_shapes_ok x st W R \<and>
    all_entries (\<lambda>a. a = 0) W \<and> all_entries (\<lambda>a. a = 0) R \<and> all_entries (\<lambda>a. a = 0) x \<longrightarrow>
      (\<exists>zn s'. coba_lif_step thr x st W R p dt = Inr (zn, s') \<and>
         (\<forall>b<length x. \<forall>n<length R.
            CobaLIFState.g_e s' ! b ! n =
              CobaLIFState.g_e st ! b ! n * (1 - dt * tau_syn_exc_inv p) \<and>
            CobaLIFState.g_i s' ! b ! n =
              CobaLIFState.g_i st ! b ! n * (1 - dt * tau_syn_inh_inv p) \<and>
            (0 < dt * tau_syn_exc_inv p \<and> dt * tau_syn_exc_inv p < 1 \<longrightarrow>
               (0 < CobaLIFState.g_e st ! b ! n \<longrightarrow>
                  0 < CobaLIFState.g_e s' ! b ! n \<and>
                  CobaLIFState.g_e s' ! b ! n < CobaLIFState.g_e st ! b ! n) \<and>
               (CobaLIFState.g_e st ! b ! n < 0 \<longrightarrow>
                  CobaLIFState.g_e st ! b ! n < CobaLIFState.g_e s' ! b ! n \<and>
                  CobaLIFState.g_e s' ! b ! n < 0)) \<and>
            (0 < dt * tau_syn_inh_inv p \<and> dt * tau_syn_inh_inv p < 1 \<longrightarrow>
               (0 < CobaLIFState.g_i st ! b ! n \<longrightarrow>
                  0 < CobaLIFState.g_i s' ! b ! n \<and>
                  CobaLIFState.g_i s' ! b ! n < CobaLIFState.g_i st ! b ! n) \<and>
               (CobaLIFState.g_i st ! b ! n < 0 \<longrightarrow>
                  CobaLIFState.g_i st ! b ! n < CobaLIFState.g_i s' ! b ! n \<and>
                  CobaLIFState.g_i s' ! b ! n < 0))))) \<and>
   (ff_shapes_ok y fs \<and> all_entries (\<lambda>a. a = 0) y \<longrightarrow>
      (\<exists>zn s'. coba_lif_feed_forward_step thr y fs p dt = Inr (zn, s') \<and>
         (\<forall>b<length y. \<forall>n<ncols y.
            CobaLIFFeedForwardState.g_e s' ! b ! n =
              CobaLIFFeedForwardState.g_e fs ! b ! n * (1 - dt * tau_syn_exc_inv p) \<and>
            CobaLIFFeedForwardState.g_i s' ! b ! n =
              CobaLIFFeedForwardState.g_i fs ! b ! n * (1 - dt * tau_syn_inh_inv p) \<and>
            (0 < dt * tau_syn_exc_inv p \<and> dt * tau_syn_exc_inv p < 1 \<longrightarrow>
               (0 < CobaLIFFeedForwardState.g_e fs ! b ! n \<longrightarrow>
                  0 < CobaLIFFeedForwardState.g_e s' ! b ! n \<and>
                  CobaLIFFeedForwardState.g_e s' ! b ! n
                    < CobaLIFFeedForwardState.g_e fs ! b ! n) \<and>
               (CobaLIFFeedForwardState.g_e fs ! b ! n < 0 \<longrightarrow>
                  CobaLIFFeedForwardState.g_e fs ! b ! n
                    < CobaLIFFeedForwardState.g_e s' ! b ! n \<and>
                  CobaLIFFeedForwardState.g_e s' ! b ! n < 0)) \<and>
            (0 < dt * tau_syn_inh_inv p \<and> dt * tau_syn_inh_inv p < 1 \<longrightarrow>
               (0 < CobaLIFFeedForwardState.g_i fs ! b ! n \<longrightarrow>
                  0 < CobaLIFFeedForwardState.g_i s' ! b ! n \<and>
                  CobaLIFFeedForwardState.g_i s' ! b ! n
                    < CobaLIFFeedForwardState.g_i fs ! b ! n) \<and>
               (CobaLIFFeedForwardState.g_i fs ! b ! n < 0 \<longrightarrow>
                  CobaLIFFeedForwardState.g_i fs ! b ! n
                    < CobaLIFFeedForwardState.g_i s' ! b ! n \<and>
                  CobaLIFFeedForwardState.g_i s' ! b ! n < 0)))))"
proof (intro conjI impI; elim conjE)
  assume ok: "step_shapes_ok x st W R"
    and zW: "all_entries (\<lambda>a. a = 0) W" and zR: "all_entries (\<lambda>a. a = 0) R"
    and zx: "all_entries (\<lambda>a. a = 0) x"
  note sh = step_shapes_okD[OF ok]
  from coba_lif_step_pointwise[OF ok] obtain zn s'
    where res: "coba_lif_step thr x st W R p dt = Inr (zn, s')"
      and pw: "step_pointwise thr x st W R p dt zn s'"
    by blast
  have eqs: "CobaLIFState.g_e s' ! b ! n =
        CobaLIFState.g_e st ! b ! n * (1 - dt * tau_syn_exc_inv p)"
      "CobaLIFState.g_i s' ! b ! n =
        CobaLIFState.g_i st ! b ! n * (1 - dt * tau_syn_inh_inv p)"
    if b: "b < length x" and n: "n < length R" for b n
  proof -
    have rows: "list_all (\<lambda>a. a = 0) (W ! n)" "list_all (\<lambda>a. a = 0) (R ! n)"
      using zW zR n sh(5) by (simp_all add: all_entries_rowD)
    show "CobaLIFState.g_e s' ! b ! n =
        CobaLIFState.g_e st ! b ! n * (1 - dt * tau_syn_exc_inv p)"
      using step_pointwiseD(1)[OF pw b n]
      by (simp add: dot_relu_zero[OF rows(1)] dot_relu_zero[OF rows(2)] algebra_simps)
    show "CobaLIFState.g_i s' ! b ! n =
        CobaLIFState.g_i st ! b ! n * (1 - dt * tau_syn_inh_inv p)"
      using step_pointwiseD(2)[OF pw b n]
      by (simp add: dot_relu_zero[OF rows(1)] dot_relu_zero[OF rows(2)] algebra_simps)
  qed
  show "\<exists>zn s'. coba_lif_step thr x st W R p dt = Inr (zn, s') \<and>
         (\<forall>b<length x. \<forall>n<length R.
            CobaLIFState.g_e s' ! b ! n =
              CobaLIFState.g_e st ! b ! n * (1 - dt * tau_syn_exc_inv p) \<and>
            CobaLIFState.g_i s' ! b ! n =
              CobaLIFState.g_i st ! b ! n * (1 - dt * tau_syn_inh_inv p) \<and>
            (0 < dt * tau_syn_exc_inv p \<and> dt * tau_syn_exc_inv p < 1 \<longrightarrow>
               (0 < CobaLIFState.g_e st ! b ! n \<longrightarrow>
                  0 < CobaLIFState.g_e s' ! b ! n \<and>
                  CobaLIFState.g_e s' ! b ! n < CobaLIFState.g_e st ! b ! n) \<and>
               (CobaLIFState.g_e st ! b ! n < 0 \<longrightarrow>
                  CobaLIFState.g_e st ! b ! n < CobaLIFState.g_e s' ! b ! n \<and>
                  CobaLIFState.g_e s' ! b ! n < 0)) \<and>
            (0 < dt * tau_syn_inh_inv p \<and> dt * tau_syn_inh_inv p < 1 \<longrightarrow>
               (0 < CobaLIFState.g_i st ! b ! n \<longrightarrow>
                  0 < CobaLIFState.g_i s' ! b ! n \<and>
                  CobaLIFState.g_i s' ! b ! n < CobaLIFState.g_i st ! b ! n) \<and>
               (CobaLIFState.g_i st ! b ! n < 0 \<longrightarrow>
                  CobaLIFState.g_i st ! b ! n < CobaLIFState.g_i s' ! b ! n \<and>
                  CobaLIFState.g_i s' ! b ! n < 0)))"
    using res eqs decay_scalar by (intro exI[of _ zn] exI[of _ s']) simp
next
  assume ok: "ff_shapes_ok y fs" and zy: "all_entries (\<lambda>a. a = 0) y"
  note sh = ff_shapes_okD[OF ok]
  from coba_lif_feed_forward_step_pointwise[OF ok] obtain zn s'
    where res: "coba_lif_feed_forward_step thr y fs p dt = Inr (zn, s')"
      and pw: "ff_pointwise thr y fs p dt zn s'"
    by blast
  have eqs: "CobaLIFFeedForwardState.g_e s' ! b ! n =
        CobaLIFFeedForwardState.g_e fs ! b ! n * (1 - dt * tau_syn_exc_inv p)"
      "CobaLIFFeedForwardState.g_i s' ! b ! n =
        CobaLIFFeedForwardState.g_i fs ! b ! n * (1 - dt * tau_syn_inh_inv p)"
    if b: "b < length y" and n: "n < ncols y" for b n
  proof -
    have y0: "y ! b ! n = 0"
      using all_entriesD[OF zy, of b n] b n sh by simp
    show "CobaLIFFeedForwardState.g_e s' ! b ! n =
        CobaLIFFeedForwardState.g_e fs ! b ! n * (1 - dt * tau_syn_exc_inv p)"
      using ff_pointwiseD(1)[OF pw b n] by (simp add: y0 algebra_simps)
    show "CobaLIFFeedForwardState.g_i s' ! b ! n =
        CobaLIFFeedForwardState.g_i fs ! b ! n * (1 - dt * tau_syn_inh_inv p)"
      using ff_pointwiseD(2)[OF pw b n] by (simp add: y0 algebra_simps)
  qed
  show "\<exists>zn s'. coba_lif_feed_forward_step thr y fs p dt = Inr (zn, s') \<and>
         (\<forall>b<length y. \<forall>n<ncols y.
            CobaLIFFeedForwardState.g_e s' ! b ! n =
              CobaLIFFeedForwardState.g_e fs ! b ! n * (1 - dt * tau_syn_exc_inv p) \<and>
            CobaLIFFeedForwardState.g_i s' ! b ! n =
              CobaLIFFeedForwardState.g_i fs ! b ! n * (1 - dt * tau_syn_inh_inv p) \<and>
            (0 < dt * tau_syn_exc_inv p \<and> dt * tau_syn_exc_inv p < 1 \<longrightarrow>
               (0 < CobaLIFFeedForwardState.g_e fs ! b ! n \<longrightarrow>
                  0 < CobaLIFFeedForwardState.g_e s' ! b ! n \<and>
                  CobaLIFFeedForwardState.g_e s' ! b ! n
                    < CobaLIFFeedForwardState.g_e fs ! b ! n) \<and>
               (CobaLIFFeedForwardState.g_e fs ! b ! n < 0 \<longrightarrow>
                  CobaLIFFeedForwardState.g_e fs ! b ! n
                    < CobaLIFFeedForwardState.g_e s' ! b ! n \<and>
                  CobaLIFFeedForwardState.g_e s' ! b ! n < 0)) \<and>
            (0 < dt * tau_syn_inh_inv p \<and> dt * tau_syn_inh_inv p < 1 \<longrightarrow>
               (0 < CobaLIFFeedForwardState.g_i fs ! b ! n \<longrightarrow>
                  0 < CobaLIFFeedForwardState.g_i s' ! b ! n \<and>
                  CobaLIFFeedForwardState.g_i s' ! b ! n
                    < CobaLIFFeedForwardState.g_i fs ! b ! n) \<and>
               (CobaLIFFeedForwardState.g_i fs ! b ! n < 0 \<longrightarrow>
                  CobaLIFFeedForwardState.g_i fs ! b ! n
                    < CobaLIFFeedForwardState.g_i s' ! b ! n \<and>
                  CobaLIFFeedForwardState.g_i s' ! b ! n < 0)))"
    using res eqs decay_scalar by (intro exI[of _ zn] exI[of _ s']) simp
qed

text \<open>
  The default parameters and the default time step give the ratio
  \<open>1 - 1 / 5000\<close>: the conductances \<open>2\<close> and \<open>1\<close> become \<open>4999 / 2500\<close> and
  \<open>4999 / 5000\<close>.
\<close>

theorem geometric_decay_witness:
  "step_shapes_ok [[0]]
      \<lparr> CobaLIFState.z = [[0]], CobaLIFState.v = [[- 30]], CobaLIFState.g_e = [[2]],
        CobaLIFState.g_i = [[1]] \<rparr> [[0]] [[0]] \<and>
   ff_shapes_ok [[0]]
      \<lparr> CobaLIFFeedForwardState.v = [[- 30]], CobaLIFFeedForwardState.g_e = [[2]],
        CobaLIFFeedForwardState.g_i = [[1]] \<rparr> \<and>
   all_entries (\<lambda>a. a = 0) [[0]] \<and>
   0 < dt_default * tau_syn_exc_inv CobaLIFParameters_default \<and>
   dt_default * tau_syn_exc_inv CobaLIFParameters_default < 1 \<and>
   0 < dt_default * tau_syn_inh_inv CobaLIFParameters_default \<and>
   dt_default * tau_syn_inh_inv CobaLIFParameters_default < 1 \<and>
   (\<exists>zn s'. coba_lif_step threshold [[0]]
      \<lparr> CobaLIFState.z = [[0]], CobaLIFState.v = [[- 30]], CobaLIFState.g_e = [[2]],
        CobaLIFState.g_i = [[1]] \<rparr> [[0]] [[0]] CobaLIFParameters_default dt_default
        = Inr (zn, s') \<and>
      CobaLIFState.g_e s' ! 0 ! 0 = 4999 / 2500 \<and> CobaLIFState.g_i s' ! 0 ! 0 = 4999 / 5000 \<and>
      0 < CobaLIFState.g_e s' ! 0 ! 0 \<and> CobaLIFState.g_e s' ! 0 ! 0 < 2 \<and>
      0 < CobaLIFState.g_i s' ! 0 ! 0 \<and> CobaLIFState.g_i s' ! 0 ! 0 < 1) \<and>
   (\<exists>zn s'. coba_lif_feed_forward_step threshold [[0]]
      \<lparr> CobaLIFFeedForwardState.v = [[- 30]], CobaLIFFeedForwardState.g_e = [[2]],
        CobaLIFFeedForwardState.g_i = [[1]] \<rparr> CobaLIFParameters_default dt_default
        = Inr (zn, s') \<and>
      CobaLIFFeedForwardState.g_e s' ! 0 ! 0 = 4999 / 2500 \<and>
      CobaLIFFeedForwardState.g_i s' ! 0 ! 0 = 4999 / 5000 \<and>
      0 < CobaLIFFeedForwardState.g_e s' ! 0 ! 0 \<and>
      CobaLIFFeedForwardState.g_e s' ! 0 ! 0 < 2 \<and>
      0 < CobaLIFFeedForwardState.g_i s' ! 0 ! 0 \<and>
      CobaLIFFeedForwardState.g_i s' ! 0 ! 0 < 1)"
  using geometric_decay[where thr = threshold and dt = dt_default
      and p = CobaLIFParameters_default
      and x = "[[0]]" and W = "[[0]]" and R = "[[0]]" and y = "[[0]]"
      and st = "\<lparr> CobaLIFState.z = [[0]], CobaLIFState.v = [[- 30]],
        CobaLIFState.g_e = [[2]], CobaLIFState.g_i = [[1]] \<rparr>"
      and fs = "\<lparr> CobaLIFFeedForwardState.v = [[- 30]],
        CobaLIFFeedForwardState.g_e = [[2]], CobaLIFFeedForwardState.g_i = [[1]] \<rparr>"]
  by (simp add: model_eval all_entries_def)

text \<open>
  C4 as stated fails in two ways, each with a positive \<open>dt\<close> and \<open>dt * tau_inv < 1\<close>.
  With the default parameters and time step, conductances that are zero stay zero:
  they do not decay strictly. With both inverse time constants zero (and so
  \<open>dt * tau_inv = 0 < 1\<close>) the conductances \<open>1\<close> and \<open>1\<close> are returned unchanged: they
  do not decay at all.
\<close>

theorem geometric_decay_counterexample:
  "0 < dt_default \<and>
   dt_default * tau_syn_exc_inv CobaLIFParameters_default < 1 \<and>
   dt_default * tau_syn_inh_inv CobaLIFParameters_default < 1 \<and>
   coba_lif_feed_forward_step threshold [[0]]
      \<lparr> CobaLIFFeedForwardState.v = [[- 20]], CobaLIFFeedForwardState.g_e = [[0]],
        CobaLIFFeedForwardState.g_i = [[0]] \<rparr> CobaLIFParameters_default dt_default
     = Inr ([[0]], \<lparr> CobaLIFFeedForwardState.v = [[- 20]],
              CobaLIFFeedForwardState.g_e = [[0]], CobaLIFFeedForwardState.g_i = [[0]] \<rparr>) \<and>
   coba_lif_step threshold [[0]]
      \<lparr> CobaLIFState.z = [[0]], CobaLIFState.v = [[- 20]], CobaLIFState.g_e = [[0]],
        CobaLIFState.g_i = [[0]] \<rparr> [[0]] [[0]] CobaLIFParameters_default dt_default
     = Inr ([[0]], \<lparr> CobaLIFState.z = [[0]], CobaLIFState.v = [[- 20]],
              CobaLIFState.g_e = [[0]], CobaLIFState.g_i = [[0]] \<rparr>) \<and>
   dt_default * tau_syn_exc_inv
       (CobaLIFParameters_default\<lparr> tau_syn_exc_inv := 0, tau_syn_inh_inv := 0 \<rparr>) < 1 \<and>
   dt_default * tau_syn_inh_inv
       (CobaLIFParameters_default\<lparr> tau_syn_exc_inv := 0, tau_syn_inh_inv := 0 \<rparr>) < 1 \<and>
   (\<exists>zn s'. coba_lif_step threshold [[0]]
      \<lparr> CobaLIFState.z = [[0]], CobaLIFState.v = [[- 20]], CobaLIFState.g_e = [[1]],
        CobaLIFState.g_i = [[1]] \<rparr> [[0]] [[0]]
      (CobaLIFParameters_default\<lparr> tau_syn_exc_inv := 0, tau_syn_inh_inv := 0 \<rparr>) dt_default
     = Inr (zn, s') \<and> CobaLIFState.g_e s' = [[1]] \<and> CobaLIFState.g_i s' = [[1]])"
  by (simp add: model_eval)

section \<open>C5: relaxation toward the rest potential\<close>

lemma relax_between:
  fixes k :: real
  assumes "0 \<le> k" and "k \<le> 1"
  shows "min a r \<le> a + k * (r - a)" and "a + k * (r - a) \<le> max a r"
proof -
  have eq: "a + k * (r - a) = (1 - k) * a + k * r"
    by (simp add: algebra_simps)
  have m1: "(1 - k) * min a r \<le> (1 - k) * a" "k * min a r \<le> k * r"
    using assms by (simp_all add: mult_left_mono)
  have m2: "(1 - k) * a \<le> (1 - k) * max a r" "k * r \<le> k * max a r"
    using assms by (simp_all add: mult_left_mono)
  have "min a r = (1 - k) * min a r + k * min a r"
    by (simp add: algebra_simps)
  with m1 show "min a r \<le> a + k * (r - a)"
    unfolding eq by linarith
  have "max a r = (1 - k) * max a r + k * max a r"
    by (simp add: algebra_simps)
  with m2 show "a + k * (r - a) \<le> max a r"
    unfolding eq by linarith
qed

lemma relax_below:
  fixes k :: real
  assumes "0 \<le> k" and "k \<le> 1" and "a < t" and "r < t"
  shows "a + k * (r - a) < t"
proof -
  have "a + k * (r - a) \<le> max a r"
    using assms(1,2) by (rule relax_between)
  also have "max a r < t"
    using assms(3,4) by simp
  finally show ?thesis .
qed

text \<open>
  C5, amended. Let all weights, the input and both conductances be zero, and let
  every voltage of the state lie strictly between \<open>v_reset\<close> and \<open>v_thresh\<close>. If the
  step is stable, \<open>0 \<le> dt * c_m_inv * g_l \<le> 1\<close>, and the rest potential is below
  the threshold, then with the threshold function of the specification no neuron
  spikes, and each returned voltage is \<open>v + dt * c_m_inv * g_l * (v_rest - v)\<close>, which
  lies weakly between the old voltage and \<open>v_rest\<close>. The same holds for the
  feed-forward step with zero input and zero conductances.
\<close>

theorem relaxation_toward_rest:
  assumes k0: "0 \<le> dt * c_m_inv p * g_l p" and k1: "dt * c_m_inv p * g_l p \<le> 1"
    and rt: "v_rest p < v_thresh p"
  shows
  "(step_shapes_ok x st W R \<and>
    all_entries (\<lambda>a. a = 0) W \<and> all_entries (\<lambda>a. a = 0) R \<and> all_entries (\<lambda>a. a = 0) x \<and>
    all_entries (\<lambda>a. a = 0) (CobaLIFState.g_e st) \<and>
    all_entries (\<lambda>a. a = 0) (CobaLIFState.g_i st) \<and>
    all_entries (\<lambda>a. v_reset p < a \<and> a < v_thresh p) (CobaLIFState.v st) \<longrightarrow>
      (\<exists>zn s'. coba_lif_step threshold x st W R p dt = Inr (zn, s') \<and>
         (\<forall>b<length x. \<forall>n<length R.
            zn ! b ! n = 0 \<and>
            CobaLIFState.v s' ! b ! n =
              CobaLIFState.v st ! b ! n
              + dt * c_m_inv p * g_l p * (v_rest p - CobaLIFState.v st ! b ! n) \<and>
            min (CobaLIFState.v st ! b ! n) (v_rest p) \<le> CobaLIFState.v s' ! b ! n \<and>
            CobaLIFState.v s' ! b ! n \<le> max (CobaLIFState.v st ! b ! n) (v_rest p)))) \<and>
   (ff_shapes_ok y fs \<and>
    all_entries (\<lambda>a. a = 0) y \<and>
    all_entries (\<lambda>a. a = 0) (CobaLIFFeedForwardState.g_e fs) \<and>
    all_entries (\<lambda>a. a = 0) (CobaLIFFeedForwardState.g_i fs) \<and>
    all_entries (\<lambda>a. v_reset p < a \<and> a < v_thresh p) (CobaLIFFeedForwardState.v fs) \<longrightarrow>
      (\<exists>zn s'. coba_lif_feed_forward_step threshold y fs p dt = Inr (zn, s') \<and>
         (\<forall>b<length y. \<forall>n<ncols y.
            zn ! b ! n = 0 \<and>
            CobaLIFFeedForwardState.v s' ! b ! n =
              CobaLIFFeedForwardState.v fs ! b ! n
              + dt * c_m_inv p * g_l p * (v_rest p - CobaLIFFeedForwardState.v fs ! b ! n) \<and>
            min (CobaLIFFeedForwardState.v fs ! b ! n) (v_rest p)
              \<le> CobaLIFFeedForwardState.v s' ! b ! n \<and>
            CobaLIFFeedForwardState.v s' ! b ! n
              \<le> max (CobaLIFFeedForwardState.v fs ! b ! n) (v_rest p))))"
proof (intro conjI impI; elim conjE)
  assume ok: "step_shapes_ok x st W R"
    and zW: "all_entries (\<lambda>a. a = 0) W" and zR: "all_entries (\<lambda>a. a = 0) R"
    and zx: "all_entries (\<lambda>a. a = 0) x"
    and ze: "all_entries (\<lambda>a. a = 0) (CobaLIFState.g_e st)"
    and zi: "all_entries (\<lambda>a. a = 0) (CobaLIFState.g_i st)"
    and vb: "all_entries (\<lambda>a. v_reset p < a \<and> a < v_thresh p) (CobaLIFState.v st)"
  note sh = step_shapes_okD[OF ok]
  from coba_lif_step_pointwise[OF ok] obtain zn s'
    where res: "coba_lif_step threshold x st W R p dt = Inr (zn, s')"
      and pw: "step_pointwise threshold x st W R p dt zn s'"
    by blast
  have "zn ! b ! n = 0 \<and>
            CobaLIFState.v s' ! b ! n =
              CobaLIFState.v st ! b ! n
              + dt * c_m_inv p * g_l p * (v_rest p - CobaLIFState.v st ! b ! n) \<and>
            min (CobaLIFState.v st ! b ! n) (v_rest p) \<le> CobaLIFState.v s' ! b ! n \<and>
            CobaLIFState.v s' ! b ! n \<le> max (CobaLIFState.v st ! b ! n) (v_rest p)"
    if b: "b < length x" and n: "n < length R" for b n
  proof -
    let ?v = "CobaLIFState.v st ! b ! n"
    let ?k = "dt * c_m_inv p * g_l p"
    have rows: "list_all (\<lambda>a. a = 0) (W ! n)" "list_all (\<lambda>a. a = 0) (R ! n)"
      using zW zR n sh(5) by (simp_all add: all_entries_rowD)
    have g0: "CobaLIFState.g_e st ! b ! n = 0" "CobaLIFState.g_i st ! b ! n = 0"
      using all_entriesD[OF ze, of b n] all_entriesD[OF zi, of b n] b n sh by simp_all
    have ge: "CobaLIFState.g_e s' ! b ! n = 0"
      using step_pointwiseD(1)[OF pw b n] g0 by (simp add: dot_relu_zero[OF rows(1)] dot_relu_zero[OF rows(2)])
    have gi: "CobaLIFState.g_i s' ! b ! n = 0"
      using step_pointwiseD(2)[OF pw b n] g0 by (simp add: dot_relu_zero[OF rows(1)] dot_relu_zero[OF rows(2)])
    have ve: "euler_v p dt ?v 0 0 = ?v + ?k * (v_rest p - ?v)"
      by (simp add: euler_v_def algebra_simps)
    have vt: "?v < v_thresh p"
      using all_entriesD[OF vb, of b n] b n sh by simp
    have below: "?v + ?k * (v_rest p - ?v) < v_thresh p"
      using k0 k1 vt rt by (rule relax_below)
    have z0: "zn ! b ! n = 0"
      using step_pointwiseD(3)[OF pw b n] below by (simp add: ge gi ve threshold_def)
    have v': "CobaLIFState.v s' ! b ! n = ?v + ?k * (v_rest p - ?v)"
      using step_pointwiseD(4)[OF pw b n] by (simp add: z0 ge gi ve)
    show ?thesis
      using z0 v' relax_between[OF k0 k1, of ?v "v_rest p"] by simp
  qed
  with res show "\<exists>zn s'. coba_lif_step threshold x st W R p dt = Inr (zn, s') \<and>
         (\<forall>b<length x. \<forall>n<length R.
            zn ! b ! n = 0 \<and>
            CobaLIFState.v s' ! b ! n =
              CobaLIFState.v st ! b ! n
              + dt * c_m_inv p * g_l p * (v_rest p - CobaLIFState.v st ! b ! n) \<and>
            min (CobaLIFState.v st ! b ! n) (v_rest p) \<le> CobaLIFState.v s' ! b ! n \<and>
            CobaLIFState.v s' ! b ! n \<le> max (CobaLIFState.v st ! b ! n) (v_rest p))"
    by blast
next
  assume ok: "ff_shapes_ok y fs"
    and zy: "all_entries (\<lambda>a. a = 0) y"
    and ze: "all_entries (\<lambda>a. a = 0) (CobaLIFFeedForwardState.g_e fs)"
    and zi: "all_entries (\<lambda>a. a = 0) (CobaLIFFeedForwardState.g_i fs)"
    and vb: "all_entries (\<lambda>a. v_reset p < a \<and> a < v_thresh p) (CobaLIFFeedForwardState.v fs)"
  note sh = ff_shapes_okD[OF ok]
  from coba_lif_feed_forward_step_pointwise[OF ok] obtain zn s'
    where res: "coba_lif_feed_forward_step threshold y fs p dt = Inr (zn, s')"
      and pw: "ff_pointwise threshold y fs p dt zn s'"
    by blast
  have "zn ! b ! n = 0 \<and>
            CobaLIFFeedForwardState.v s' ! b ! n =
              CobaLIFFeedForwardState.v fs ! b ! n
              + dt * c_m_inv p * g_l p * (v_rest p - CobaLIFFeedForwardState.v fs ! b ! n) \<and>
            min (CobaLIFFeedForwardState.v fs ! b ! n) (v_rest p)
              \<le> CobaLIFFeedForwardState.v s' ! b ! n \<and>
            CobaLIFFeedForwardState.v s' ! b ! n
              \<le> max (CobaLIFFeedForwardState.v fs ! b ! n) (v_rest p)"
    if b: "b < length y" and n: "n < ncols y" for b n
  proof -
    let ?v = "CobaLIFFeedForwardState.v fs ! b ! n"
    let ?k = "dt * c_m_inv p * g_l p"
    have y0: "y ! b ! n = 0"
      using all_entriesD[OF zy, of b n] b n sh by simp
    have g0: "CobaLIFFeedForwardState.g_e fs ! b ! n = 0"
      "CobaLIFFeedForwardState.g_i fs ! b ! n = 0"
      using all_entriesD[OF ze, of b n] all_entriesD[OF zi, of b n] b n sh by simp_all
    have ge: "CobaLIFFeedForwardState.g_e s' ! b ! n = 0"
      using ff_pointwiseD(1)[OF pw b n] g0 y0 by simp
    have gi: "CobaLIFFeedForwardState.g_i s' ! b ! n = 0"
      using ff_pointwiseD(2)[OF pw b n] g0 y0 by simp
    have ve: "euler_v p dt ?v 0 0 = ?v + ?k * (v_rest p - ?v)"
      by (simp add: euler_v_def algebra_simps)
    have vt: "?v < v_thresh p"
      using all_entriesD[OF vb, of b n] b n sh by simp
    have below: "?v + ?k * (v_rest p - ?v) < v_thresh p"
      using k0 k1 vt rt by (rule relax_below)
    have z0: "zn ! b ! n = 0"
      using ff_pointwiseD(3)[OF pw b n] below by (simp add: ge gi ve threshold_def)
    have v': "CobaLIFFeedForwardState.v s' ! b ! n = ?v + ?k * (v_rest p - ?v)"
      using ff_pointwiseD(4)[OF pw b n] by (simp add: z0 ge gi ve)
    show ?thesis
      using z0 v' relax_between[OF k0 k1, of ?v "v_rest p"] by simp
  qed
  with res show "\<exists>zn s'. coba_lif_feed_forward_step threshold y fs p dt = Inr (zn, s') \<and>
         (\<forall>b<length y. \<forall>n<ncols y.
            zn ! b ! n = 0 \<and>
            CobaLIFFeedForwardState.v s' ! b ! n =
              CobaLIFFeedForwardState.v fs ! b ! n
              + dt * c_m_inv p * g_l p * (v_rest p - CobaLIFFeedForwardState.v fs ! b ! n) \<and>
            min (CobaLIFFeedForwardState.v fs ! b ! n) (v_rest p)
              \<le> CobaLIFFeedForwardState.v s' ! b ! n \<and>
            CobaLIFFeedForwardState.v s' ! b ! n
              \<le> max (CobaLIFFeedForwardState.v fs ! b ! n) (v_rest p))"
    by blast
qed

text \<open>
  The default parameters and the default time step meet the hypotheses
  (\<open>dt * c_m_inv * g_l = 1 / 800\<close>): from \<open>v = - 30\<close> the voltage moves to
  \<open>- 30 + 10 / 800\<close>, toward \<open>v_rest = - 20\<close>, and no spike is emitted.
\<close>

theorem relaxation_toward_rest_witness:
  "0 \<le> dt_default * c_m_inv CobaLIFParameters_default * g_l CobaLIFParameters_default \<and>
   dt_default * c_m_inv CobaLIFParameters_default * g_l CobaLIFParameters_default \<le> 1 \<and>
   v_rest CobaLIFParameters_default < v_thresh CobaLIFParameters_default \<and>
   step_shapes_ok [[0]]
      \<lparr> CobaLIFState.z = [[0]], CobaLIFState.v = [[- 30]], CobaLIFState.g_e = [[0]],
        CobaLIFState.g_i = [[0]] \<rparr> [[0]] [[0]] \<and>
   ff_shapes_ok [[0]]
      \<lparr> CobaLIFFeedForwardState.v = [[- 30]], CobaLIFFeedForwardState.g_e = [[0]],
        CobaLIFFeedForwardState.g_i = [[0]] \<rparr> \<and>
   all_entries (\<lambda>a. v_reset CobaLIFParameters_default < a \<and>
       a < v_thresh CobaLIFParameters_default) [[- 30]] \<and>
   (\<exists>zn s'. coba_lif_step threshold [[0]]
      \<lparr> CobaLIFState.z = [[0]], CobaLIFState.v = [[- 30]], CobaLIFState.g_e = [[0]],
        CobaLIFState.g_i = [[0]] \<rparr> [[0]] [[0]] CobaLIFParameters_default dt_default
        = Inr (zn, s') \<and>
      zn ! 0 ! 0 = 0 \<and> CobaLIFState.v s' ! 0 ! 0 = - 30 + 10 / 800 \<and>
      - 30 \<le> CobaLIFState.v s' ! 0 ! 0 \<and> CobaLIFState.v s' ! 0 ! 0 \<le> - 20) \<and>
   (\<exists>zn s'. coba_lif_feed_forward_step threshold [[0]]
      \<lparr> CobaLIFFeedForwardState.v = [[- 30]], CobaLIFFeedForwardState.g_e = [[0]],
        CobaLIFFeedForwardState.g_i = [[0]] \<rparr> CobaLIFParameters_default dt_default
        = Inr (zn, s') \<and>
      zn ! 0 ! 0 = 0 \<and> CobaLIFFeedForwardState.v s' ! 0 ! 0 = - 30 + 10 / 800 \<and>
      - 30 \<le> CobaLIFFeedForwardState.v s' ! 0 ! 0 \<and>
      CobaLIFFeedForwardState.v s' ! 0 ! 0 \<le> - 20)"
  using relaxation_toward_rest[where dt = dt_default and p = CobaLIFParameters_default
      and x = "[[0]]" and W = "[[0]]" and R = "[[0]]" and y = "[[0]]"
      and st = "\<lparr> CobaLIFState.z = [[0]], CobaLIFState.v = [[- 30]],
        CobaLIFState.g_e = [[0]], CobaLIFState.g_i = [[0]] \<rparr>"
      and fs = "\<lparr> CobaLIFFeedForwardState.v = [[- 30]],
        CobaLIFFeedForwardState.g_e = [[0]], CobaLIFFeedForwardState.g_i = [[0]] \<rparr>"]
  by (simp add: model_eval all_entries_def)

text \<open>
  C5 as stated, for every parameter set and time step, fails in two ways.
  With the default parameters and \<open>dt = 1\<close> (so \<open>dt * c_m_inv * g_l = 5 / 4\<close>) the
  voltage \<open>- 30\<close> moves to \<open>- 35 / 2\<close>, beyond \<open>v_rest = - 20\<close>. With the default time
  step and the default parameters but \<open>v_rest = 0\<close>, above the threshold, the voltage
  \<open>- 1001 / 100\<close>, strictly between \<open>v_reset\<close> and \<open>v_thresh\<close>, crosses the threshold:
  a spike is emitted and the voltage is reset to \<open>- 70\<close>.
\<close>

theorem relaxation_counterexample:
  "coba_lif_step threshold [[0]]
      \<lparr> CobaLIFState.z = [[0]], CobaLIFState.v = [[- 30]], CobaLIFState.g_e = [[0]],
        CobaLIFState.g_i = [[0]] \<rparr> [[0]] [[0]] CobaLIFParameters_default 1
     = Inr ([[0]], \<lparr> CobaLIFState.z = [[0]], CobaLIFState.v = [[- 35 / 2]],
              CobaLIFState.g_e = [[0]], CobaLIFState.g_i = [[0]] \<rparr>) \<and>
   v_reset CobaLIFParameters_default < - 30 \<and> - 30 < v_thresh CobaLIFParameters_default \<and>
   max (- 30) (v_rest CobaLIFParameters_default) < - 35 / 2 \<and>
   coba_lif_step threshold [[0]]
      \<lparr> CobaLIFState.z = [[0]], CobaLIFState.v = [[- 1001 / 100]], CobaLIFState.g_e = [[0]],
        CobaLIFState.g_i = [[0]] \<rparr> [[0]] [[0]]
      (CobaLIFParameters_default\<lparr> v_rest := 0 \<rparr>) dt_default
     = Inr ([[1]], \<lparr> CobaLIFState.z = [[1]], CobaLIFState.v = [[- 70]],
              CobaLIFState.g_e = [[0]], CobaLIFState.g_i = [[0]] \<rparr>) \<and>
   v_reset (CobaLIFParameters_default\<lparr> v_rest := 0 \<rparr>) < - 1001 / 100 \<and>
   - 1001 / 100 < v_thresh (CobaLIFParameters_default\<lparr> v_rest := 0 \<rparr>)"
  by (simp add: model_eval)

section \<open>C6: the threshold boundary\<close>

text \<open>
  C6. With the threshold function of the specification, both steps emit the spike 1
  for a neuron whose voltage after the Euler update equals the threshold potential
  exactly: the spike is 1 where \<open>v - v_thresh >= 0\<close> and 0 elsewhere, the
  inequality is not strict.
\<close>

theorem threshold_boundary:
  "(step_shapes_ok x st W R \<longrightarrow>
      (\<exists>zn s'. coba_lif_step threshold x st W R p dt = Inr (zn, s') \<and>
         (\<forall>b<length x. \<forall>n<length R.
            zn ! b ! n =
              (if 0 \<le> euler_v p dt (CobaLIFState.v st ! b ! n)
                   (CobaLIFState.g_e s' ! b ! n) (CobaLIFState.g_i s' ! b ! n) - v_thresh p
               then 1 else 0) \<and>
            (euler_v p dt (CobaLIFState.v st ! b ! n)
                 (CobaLIFState.g_e s' ! b ! n) (CobaLIFState.g_i s' ! b ! n) - v_thresh p = 0
             \<longrightarrow> zn ! b ! n = 1)))) \<and>
   (ff_shapes_ok y fs \<longrightarrow>
      (\<exists>zn s'. coba_lif_feed_forward_step threshold y fs p dt = Inr (zn, s') \<and>
         (\<forall>b<length y. \<forall>n<ncols y.
            zn ! b ! n =
              (if 0 \<le> euler_v p dt (CobaLIFFeedForwardState.v fs ! b ! n)
                   (CobaLIFFeedForwardState.g_e s' ! b ! n)
                   (CobaLIFFeedForwardState.g_i s' ! b ! n) - v_thresh p
               then 1 else 0) \<and>
            (euler_v p dt (CobaLIFFeedForwardState.v fs ! b ! n)
                 (CobaLIFFeedForwardState.g_e s' ! b ! n)
                 (CobaLIFFeedForwardState.g_i s' ! b ! n) - v_thresh p = 0
             \<longrightarrow> zn ! b ! n = 1))))"
proof (intro conjI impI)
  assume ok: "step_shapes_ok x st W R"
  from coba_lif_step_pointwise[OF ok] obtain zn s'
    where res: "coba_lif_step threshold x st W R p dt = Inr (zn, s')"
      and pw: "step_pointwise threshold x st W R p dt zn s'"
    by blast
  have "zn ! b ! n =
              (if 0 \<le> euler_v p dt (CobaLIFState.v st ! b ! n)
                   (CobaLIFState.g_e s' ! b ! n) (CobaLIFState.g_i s' ! b ! n) - v_thresh p
               then 1 else 0) \<and>
            (euler_v p dt (CobaLIFState.v st ! b ! n)
                 (CobaLIFState.g_e s' ! b ! n) (CobaLIFState.g_i s' ! b ! n) - v_thresh p = 0
             \<longrightarrow> zn ! b ! n = 1)"
    if "b < length x" "n < length R" for b n
    using step_pointwiseD(3)[OF pw that] by (simp add: threshold_def)
  with res show "\<exists>zn s'. coba_lif_step threshold x st W R p dt = Inr (zn, s') \<and>
         (\<forall>b<length x. \<forall>n<length R.
            zn ! b ! n =
              (if 0 \<le> euler_v p dt (CobaLIFState.v st ! b ! n)
                   (CobaLIFState.g_e s' ! b ! n) (CobaLIFState.g_i s' ! b ! n) - v_thresh p
               then 1 else 0) \<and>
            (euler_v p dt (CobaLIFState.v st ! b ! n)
                 (CobaLIFState.g_e s' ! b ! n) (CobaLIFState.g_i s' ! b ! n) - v_thresh p = 0
             \<longrightarrow> zn ! b ! n = 1))"
    by blast
next
  assume ok: "ff_shapes_ok y fs"
  from coba_lif_feed_forward_step_pointwise[OF ok] obtain zn s'
    where res: "coba_lif_feed_forward_step threshold y fs p dt = Inr (zn, s')"
      and pw: "ff_pointwise threshold y fs p dt zn s'"
    by blast
  have "zn ! b ! n =
              (if 0 \<le> euler_v p dt (CobaLIFFeedForwardState.v fs ! b ! n)
                   (CobaLIFFeedForwardState.g_e s' ! b ! n)
                   (CobaLIFFeedForwardState.g_i s' ! b ! n) - v_thresh p
               then 1 else 0) \<and>
            (euler_v p dt (CobaLIFFeedForwardState.v fs ! b ! n)
                 (CobaLIFFeedForwardState.g_e s' ! b ! n)
                 (CobaLIFFeedForwardState.g_i s' ! b ! n) - v_thresh p = 0
             \<longrightarrow> zn ! b ! n = 1)"
    if "b < length y" "n < ncols y" for b n
    using ff_pointwiseD(3)[OF pw that] by (simp add: threshold_def)
  with res show "\<exists>zn s'. coba_lif_feed_forward_step threshold y fs p dt = Inr (zn, s') \<and>
         (\<forall>b<length y. \<forall>n<ncols y.
            zn ! b ! n =
              (if 0 \<le> euler_v p dt (CobaLIFFeedForwardState.v fs ! b ! n)
                   (CobaLIFFeedForwardState.g_e s' ! b ! n)
                   (CobaLIFFeedForwardState.g_i s' ! b ! n) - v_thresh p
               then 1 else 0) \<and>
            (euler_v p dt (CobaLIFFeedForwardState.v fs ! b ! n)
                 (CobaLIFFeedForwardState.g_e s' ! b ! n)
                 (CobaLIFFeedForwardState.g_i s' ! b ! n) - v_thresh p = 0
             \<longrightarrow> zn ! b ! n = 1))"
    by blast
qed

text \<open>
  The boundary is met by the default parameters: from \<open>v = - 7980 / 799\<close> with no
  conductance and no input the Euler update gives \<open>- 10 = v_thresh\<close> exactly; the
  neuron spikes and is reset to \<open>- 70\<close>.
\<close>

theorem threshold_boundary_witness:
  "step_shapes_ok [[0]]
      \<lparr> CobaLIFState.z = [[0]], CobaLIFState.v = [[- 7980 / 799]], CobaLIFState.g_e = [[0]],
        CobaLIFState.g_i = [[0]] \<rparr> [[0]] [[0]] \<and>
   ff_shapes_ok [[0]]
      \<lparr> CobaLIFFeedForwardState.v = [[- 7980 / 799]], CobaLIFFeedForwardState.g_e = [[0]],
        CobaLIFFeedForwardState.g_i = [[0]] \<rparr> \<and>
   euler_v CobaLIFParameters_default dt_default (- 7980 / 799) 0 0
     - v_thresh CobaLIFParameters_default = 0 \<and>
   coba_lif_step threshold [[0]]
      \<lparr> CobaLIFState.z = [[0]], CobaLIFState.v = [[- 7980 / 799]], CobaLIFState.g_e = [[0]],
        CobaLIFState.g_i = [[0]] \<rparr> [[0]] [[0]] CobaLIFParameters_default dt_default
     = Inr ([[1]], \<lparr> CobaLIFState.z = [[1]], CobaLIFState.v = [[- 70]],
              CobaLIFState.g_e = [[0]], CobaLIFState.g_i = [[0]] \<rparr>) \<and>
   coba_lif_feed_forward_step threshold [[0]]
      \<lparr> CobaLIFFeedForwardState.v = [[- 7980 / 799]], CobaLIFFeedForwardState.g_e = [[0]],
        CobaLIFFeedForwardState.g_i = [[0]] \<rparr> CobaLIFParameters_default dt_default
     = Inr ([[1]], \<lparr> CobaLIFFeedForwardState.v = [[- 70]],
              CobaLIFFeedForwardState.g_e = [[0]], CobaLIFFeedForwardState.g_i = [[0]] \<rparr>)"
  using threshold_boundary[of "[[0]]"
      "\<lparr> CobaLIFState.z = [[0]], CobaLIFState.v = [[- 7980 / 799]], CobaLIFState.g_e = [[0]],
        CobaLIFState.g_i = [[0]] \<rparr>" "[[0]]" "[[0]]" CobaLIFParameters_default
      dt_default "[[0]]"
      "\<lparr> CobaLIFFeedForwardState.v = [[- 7980 / 799]], CobaLIFFeedForwardState.g_e = [[0]],
        CobaLIFFeedForwardState.g_i = [[0]] \<rparr>"]
  by (simp add: model_eval)

section \<open>C7: the numeric scenario\<close>

text \<open>
  C7. With \<open>dt = 0.001\<close>, \<open>tau_syn_exc_inv = 0.2\<close>, zero initial conductances and a
  single input of value 1, one feed-forward step returns \<open>g_e = 1\<close> and \<open>g_i = 0\<close>
  exactly, whatever the voltage, the other parameters and the threshold function
  are: the input of the same step is not attenuated by the decay. The recurrent
  step does the same when the spike passes through a single input weight of 1 and
  the recurrent weight is zero.
\<close>

theorem numeric_scenario:
  "(\<exists>zn s'. coba_lif_feed_forward_step thr [[1]]
        \<lparr> CobaLIFFeedForwardState.v = [[v0]], CobaLIFFeedForwardState.g_e = [[0]],
          CobaLIFFeedForwardState.g_i = [[0]] \<rparr>
        (p\<lparr> tau_syn_exc_inv := 2 / 10 \<rparr>) (1 / 1000) = Inr (zn, s') \<and>
      CobaLIFFeedForwardState.g_e s' = [[1]] \<and> CobaLIFFeedForwardState.g_i s' = [[0]]) \<and>
   (\<exists>zn s'. coba_lif_step thr [[1]]
        \<lparr> CobaLIFState.z = [[0]], CobaLIFState.v = [[v0]], CobaLIFState.g_e = [[0]],
          CobaLIFState.g_i = [[0]] \<rparr> [[1]] [[0]]
        (p\<lparr> tau_syn_exc_inv := 2 / 10 \<rparr>) (1 / 1000) = Inr (zn, s') \<and>
      CobaLIFState.g_e s' = [[1]] \<and> CobaLIFState.g_i s' = [[0]])"
proof
  show "\<exists>zn s'. coba_lif_feed_forward_step thr [[1]]
        \<lparr> CobaLIFFeedForwardState.v = [[v0]], CobaLIFFeedForwardState.g_e = [[0]],
          CobaLIFFeedForwardState.g_i = [[0]] \<rparr>
        (p\<lparr> tau_syn_exc_inv := 2 / 10 \<rparr>) (1 / 1000) = Inr (zn, s') \<and>
      CobaLIFFeedForwardState.g_e s' = [[1]] \<and> CobaLIFFeedForwardState.g_i s' = [[0]]"
    by (simp add: coba_lif_feed_forward_step_def ff_shapes_ok_def Let_def tensor_eval)
  show "\<exists>zn s'. coba_lif_step thr [[1]]
        \<lparr> CobaLIFState.z = [[0]], CobaLIFState.v = [[v0]], CobaLIFState.g_e = [[0]],
          CobaLIFState.g_i = [[0]] \<rparr> [[1]] [[0]]
        (p\<lparr> tau_syn_exc_inv := 2 / 10 \<rparr>) (1 / 1000) = Inr (zn, s') \<and>
      CobaLIFState.g_e s' = [[1]] \<and> CobaLIFState.g_i s' = [[0]]"
    by (simp add: coba_lif_step_def step_shapes_ok_def Let_def tensor_eval)
qed

section \<open>C8: the default parameters\<close>

text \<open>
  C8. The default parameters describe the biologically plausible regime: the reset
  potential is below the rest potential, the threshold is above it, the excitatory
  reversal potential is above and the inhibitory one below the rest potential, and
  the leak conductance is strictly positive.
\<close>

theorem default_parameters_regime:
  "v_reset CobaLIFParameters_default < v_rest CobaLIFParameters_default \<and>
   v_rest CobaLIFParameters_default < v_thresh CobaLIFParameters_default \<and>
   v_rest CobaLIFParameters_default < e_rev_E CobaLIFParameters_default \<and>
   e_rev_I CobaLIFParameters_default < v_rest CobaLIFParameters_default \<and>
   0 < g_l CobaLIFParameters_default"
  by (simp add: CobaLIFParameters_default_def)

section \<open>C9: the feed-forward step as a recurrent step\<close>

lemma length_zeros [simp]: "length (zeros B N) = B"
  by (simp add: zeros_def)

lemma zeros_row [simp]: "b < B \<Longrightarrow> zeros B N ! b = replicate N 0"
  by (simp add: zeros_def)

lemma length_eye [simp]: "length (eye N) = N"
  by (simp add: eye_def)

lemma eye_row: "n < N \<Longrightarrow> eye N ! n = (replicate N 0)[n := 1]"
  by (rule nth_equalityI) (auto simp add: eye_def nth_list_update)

lemma has_shape_eye [simp]: "has_shape N N (eye N)"
  by (simp add: has_shape_iff eye_row)

lemma ncols_eye [simp]: "ncols (eye N) = N"
proof (cases N)
  case 0
  then show ?thesis by (simp add: ncols_def eye_def)
next
  case (Suc m)
  then have "eye N = eye N ! 0 # tl (eye N)"
    by (cases "eye N") (simp_all add: eye_def upt_conv_Cons)
  then have "ncols (eye N) = length (eye N ! 0)"
    by (metis list.simps(5) ncols_def)
  then show ?thesis
    using Suc by (simp add: eye_row)
qed

lemma dot_replicate_zero [simp]: "dot xs (replicate N 0) = 0" "dot (replicate N 0) ws = 0"
  by (simp_all add: dot_zero_right dot_zero_left list_all_length)

lemma dot_eye_row:
  assumes "n < N" and "length xs = N"
  shows "dot xs (map (\<lambda>a. max a 0) (eye N ! n)) = xs ! n"
    and "dot xs (map (\<lambda>a. max (- a) 0) (eye N ! n)) = 0"
proof -
  have "map (\<lambda>a. max a 0) (eye N ! n) = (replicate N (0::real))[n := 1]"
    using assms(1) by (simp add: eye_row map_update)
  then show "dot xs (map (\<lambda>a. max a 0) (eye N ! n)) = xs ! n"
    using assms by (simp add: dot_update)
  have "map (\<lambda>a. max (- a) 0) (eye N ! n) = (replicate N (0::real))[n := 0]"
    using assms(1) by (simp add: eye_row map_update)
  then show "dot xs (map (\<lambda>a. max (- a) 0) (eye N ! n)) = 0"
    using assms by (simp add: dot_update)
qed

text \<open>
  C9. For every input without a negative entry, every feed-forward state, parameter
  set, time step and threshold function, the recurrent step with the identity
  matrix as input weights, zero recurrent weights and zero previous spikes returns
  the same spikes, voltages and conductances as the feed-forward step.
\<close>

theorem feed_forward_agreement:
  assumes ok: "ff_shapes_ok x fs" and nonneg: "all_entries (\<lambda>a. 0 \<le> a) x"
  shows "\<exists>zn s' s''.
     coba_lif_step thr x
        \<lparr> CobaLIFState.z = zeros (length x) (ncols x),
          CobaLIFState.v = CobaLIFFeedForwardState.v fs,
          CobaLIFState.g_e = CobaLIFFeedForwardState.g_e fs,
          CobaLIFState.g_i = CobaLIFFeedForwardState.g_i fs \<rparr>
        (eye (ncols x)) (zeros (ncols x) (ncols x)) p dt = Inr (zn, s') \<and>
     coba_lif_feed_forward_step thr x fs p dt = Inr (zn, s'') \<and>
     CobaLIFState.v s' = CobaLIFFeedForwardState.v s'' \<and>
     CobaLIFState.g_e s' = CobaLIFFeedForwardState.g_e s'' \<and>
     CobaLIFState.g_i s' = CobaLIFFeedForwardState.g_i s''"
proof -
  let ?B = "length x" and ?N = "ncols x"
  let ?st = "\<lparr> CobaLIFState.z = zeros ?B ?N,
          CobaLIFState.v = CobaLIFFeedForwardState.v fs,
          CobaLIFState.g_e = CobaLIFFeedForwardState.g_e fs,
          CobaLIFState.g_i = CobaLIFFeedForwardState.g_i fs \<rparr>"
  note sh = ff_shapes_okD[OF ok]
  have rok: "step_shapes_ok x ?st (eye ?N) (zeros ?N ?N)"
    using ok by (simp add: step_shapes_ok_def ff_shapes_ok_def Let_def)
  from coba_lif_step_pointwise[OF rok] obtain zn s'
    where r: "coba_lif_step thr x ?st (eye ?N) (zeros ?N ?N) p dt = Inr (zn, s')"
      and rp: "step_pointwise thr x ?st (eye ?N) (zeros ?N ?N) p dt zn s'"
    by blast
  from coba_lif_feed_forward_step_pointwise[OF ok] obtain zf s''
    where f: "coba_lif_feed_forward_step thr x fs p dt = Inr (zf, s'')"
      and fp: "ff_pointwise thr x fs p dt zf s''"
    by blast
  note rs = step_pointwise_shapes[OF rp] and fshp = ff_pointwise_shapes[OF fp]
  have xpos: "max (x ! b ! n) 0 = x ! b ! n" "max (- (x ! b ! n)) 0 = 0"
    if "b < ?B" "n < ?N" for b n
    using all_entriesD[OF nonneg, of b n] that sh by simp_all
  have ge: "CobaLIFState.g_e s' ! b ! n = CobaLIFFeedForwardState.g_e s'' ! b ! n"
    if b: "b < ?B" and n: "n < ?N" for b n
    using step_pointwiseD(1)[OF rp, of b n] ff_pointwiseD(1)[OF fp b n] b n sh(4)[OF b]
    by (simp add: dot_eye_row xpos)
  have gi: "CobaLIFState.g_i s' ! b ! n = CobaLIFFeedForwardState.g_i s'' ! b ! n"
    if b: "b < ?B" and n: "n < ?N" for b n
    using step_pointwiseD(2)[OF rp, of b n] ff_pointwiseD(2)[OF fp b n] b n sh(4)[OF b]
    by (simp add: dot_eye_row xpos)
  have zz: "zn ! b ! n = zf ! b ! n"
    if b: "b < ?B" and n: "n < ?N" for b n
    using step_pointwiseD(3)[OF rp, of b n] ff_pointwiseD(3)[OF fp b n] b n
    by (simp add: ge gi)
  have vv: "CobaLIFState.v s' ! b ! n = CobaLIFFeedForwardState.v s'' ! b ! n"
    if b: "b < ?B" and n: "n < ?N" for b n
    using step_pointwiseD(4)[OF rp, of b n] ff_pointwiseD(4)[OF fp b n] b n
    by (simp add: ge gi zz)
  have "zn = zf"
    using rs(2) fshp(1) zz by (intro tensor_eqI[of ?B ?N]) simp_all
  moreover have "CobaLIFState.v s' = CobaLIFFeedForwardState.v s''"
    using rs(3) fshp(2) vv by (intro tensor_eqI[of ?B ?N]) simp_all
  moreover have "CobaLIFState.g_e s' = CobaLIFFeedForwardState.g_e s''"
    using rs(4) fshp(3) ge by (intro tensor_eqI[of ?B ?N]) simp_all
  moreover have "CobaLIFState.g_i s' = CobaLIFFeedForwardState.g_i s''"
    using rs(5) fshp(4) gi by (intro tensor_eqI[of ?B ?N]) simp_all
  ultimately show ?thesis
    using r f by blast
qed

text \<open>
  A batch of two inputs for two neurons, one of which spikes.
\<close>

theorem feed_forward_agreement_witness:
  "ff_shapes_ok [[1, 0], [2, 3]]
      \<lparr> CobaLIFFeedForwardState.v = [[- 30, - 5], [- 20, - 11]],
        CobaLIFFeedForwardState.g_e = [[0, 1], [2, 0]],
        CobaLIFFeedForwardState.g_i = [[1, 0], [0, 0]] \<rparr> \<and>
   all_entries (\<lambda>a. 0 \<le> a) [[1, 0], [2, 3]] \<and>
   (\<exists>zn s' s''.
     coba_lif_step threshold [[1, 0], [2, 3]]
        \<lparr> CobaLIFState.z = zeros 2 2,
          CobaLIFState.v = [[- 30, - 5], [- 20, - 11]],
          CobaLIFState.g_e = [[0, 1], [2, 0]],
          CobaLIFState.g_i = [[1, 0], [0, 0]] \<rparr>
        (eye 2) (zeros 2 2) CobaLIFParameters_default dt_default = Inr (zn, s') \<and>
     coba_lif_feed_forward_step threshold [[1, 0], [2, 3]]
        \<lparr> CobaLIFFeedForwardState.v = [[- 30, - 5], [- 20, - 11]],
          CobaLIFFeedForwardState.g_e = [[0, 1], [2, 0]],
          CobaLIFFeedForwardState.g_i = [[1, 0], [0, 0]] \<rparr>
        CobaLIFParameters_default dt_default = Inr (zn, s'') \<and>
     CobaLIFState.v s' = CobaLIFFeedForwardState.v s'' \<and>
     CobaLIFState.g_e s' = CobaLIFFeedForwardState.g_e s'' \<and>
     CobaLIFState.g_i s' = CobaLIFFeedForwardState.g_i s'' \<and>
     zn ! 0 ! 1 = 1 \<and> zn ! 0 ! 0 = 0)"
proof -
  have ok: "ff_shapes_ok [[1, 0], [2, 3]]
      \<lparr> CobaLIFFeedForwardState.v = [[- 30, - 5], [- 20, - 11]],
        CobaLIFFeedForwardState.g_e = [[0, 1], [2, 0]],
        CobaLIFFeedForwardState.g_i = [[1, 0], [0, 0]] \<rparr>"
    by (simp add: ff_shapes_ok_def Let_def has_shape_def ncols_def)
  have nn: "all_entries (\<lambda>a. 0 \<le> a) [[1, 0], [2, 3]]"
    by (simp add: all_entries_def)
  have nc: "ncols [[1, 0], [2, 3]] = 2"
    by (simp add: ncols_def)
  have len: "length [[1, 0], [2, 3 :: real]] = 2"
    by simp
  from feed_forward_agreement[OF ok nn, of threshold CobaLIFParameters_default dt_default,
      unfolded nc len CobaLIFFeedForwardState.select_convs]
  obtain zn s' s'' where
    r: "coba_lif_step threshold [[1, 0], [2, 3]]
        \<lparr> CobaLIFState.z = zeros 2 2,
          CobaLIFState.v = [[- 30, - 5], [- 20, - 11]],
          CobaLIFState.g_e = [[0, 1], [2, 0]],
          CobaLIFState.g_i = [[1, 0], [0, 0]] \<rparr>
        (eye 2) (zeros 2 2) CobaLIFParameters_default dt_default = Inr (zn, s')"
    and f: "coba_lif_feed_forward_step threshold [[1, 0], [2, 3]]
        \<lparr> CobaLIFFeedForwardState.v = [[- 30, - 5], [- 20, - 11]],
          CobaLIFFeedForwardState.g_e = [[0, 1], [2, 0]],
          CobaLIFFeedForwardState.g_i = [[1, 0], [0, 0]] \<rparr>
        CobaLIFParameters_default dt_default = Inr (zn, s'')"
    and eqs: "CobaLIFState.v s' = CobaLIFFeedForwardState.v s''"
      "CobaLIFState.g_e s' = CobaLIFFeedForwardState.g_e s''"
      "CobaLIFState.g_i s' = CobaLIFFeedForwardState.g_i s''"
    by blast
  from f have "zn ! 0 ! 1 = 1 \<and> zn ! 0 ! 0 = 0"
    by (auto simp add: model_eval)
  with ok nn r f eqs show ?thesis by blast
qed

section \<open>C10: non-negative conductances\<close>

lemma relu_row_nonneg:
  fixes ws :: "real list"
  shows "list_all (\<lambda>a. 0 \<le> a) (map (\<lambda>a. max a 0) ws)"
    and "list_all (\<lambda>a. 0 \<le> a) (map (\<lambda>a. max (- a) 0) ws)"
  by (simp_all add: list_all_length)

lemma decay_nonneg:
  fixes c g :: real
  assumes "0 \<le> c" and "c \<le> 1" and "0 \<le> g"
  shows "0 \<le> g + (- c) * g"
proof -
  have "g + (- c) * g = g * (1 - c)"
    by (simp add: algebra_simps)
  moreover have "0 \<le> g * (1 - c)"
    using assms by simp
  ultimately show ?thesis by simp
qed

text \<open>
  C10, amended. If the conductances of the incoming state, the input and the
  previous spikes \<open>state.z\<close> are non-negative in every entry, and
  \<open>0 \<le> dt * tau_syn_exc_inv \<le> 1\<close> and \<open>0 \<le> dt * tau_syn_inh_inv \<le> 1\<close>, then the
  conductances the recurrent step returns are non-negative in every entry. For the
  feed-forward step the same holds with no condition on the input, which is
  rectified itself.
\<close>

theorem conductances_nonneg:
  assumes e0: "0 \<le> dt * tau_syn_exc_inv p" and e1: "dt * tau_syn_exc_inv p \<le> 1"
    and i0: "0 \<le> dt * tau_syn_inh_inv p" and i1: "dt * tau_syn_inh_inv p \<le> 1"
  shows
  "(step_shapes_ok x st W R \<and>
    all_entries (\<lambda>a. 0 \<le> a) (CobaLIFState.g_e st) \<and>
    all_entries (\<lambda>a. 0 \<le> a) (CobaLIFState.g_i st) \<and>
    all_entries (\<lambda>a. 0 \<le> a) x \<and>
    all_entries (\<lambda>a. 0 \<le> a) (CobaLIFState.z st) \<longrightarrow>
      (\<exists>zn s'. coba_lif_step thr x st W R p dt = Inr (zn, s') \<and>
         all_entries (\<lambda>a. 0 \<le> a) (CobaLIFState.g_e s') \<and>
         all_entries (\<lambda>a. 0 \<le> a) (CobaLIFState.g_i s'))) \<and>
   (ff_shapes_ok y fs \<and>
    all_entries (\<lambda>a. 0 \<le> a) (CobaLIFFeedForwardState.g_e fs) \<and>
    all_entries (\<lambda>a. 0 \<le> a) (CobaLIFFeedForwardState.g_i fs) \<longrightarrow>
      (\<exists>zn s'. coba_lif_feed_forward_step thr y fs p dt = Inr (zn, s') \<and>
         all_entries (\<lambda>a. 0 \<le> a) (CobaLIFFeedForwardState.g_e s') \<and>
         all_entries (\<lambda>a. 0 \<le> a) (CobaLIFFeedForwardState.g_i s')))"
proof (intro conjI impI; elim conjE)
  assume ok: "step_shapes_ok x st W R"
    and ge: "all_entries (\<lambda>a. 0 \<le> a) (CobaLIFState.g_e st)"
    and gi: "all_entries (\<lambda>a. 0 \<le> a) (CobaLIFState.g_i st)"
    and xs: "all_entries (\<lambda>a. 0 \<le> a) x"
    and zs: "all_entries (\<lambda>a. 0 \<le> a) (CobaLIFState.z st)"
  note sh = step_shapes_okD[OF ok]
  from coba_lif_step_pointwise[OF ok] obtain zn s'
    where res: "coba_lif_step thr x st W R p dt = Inr (zn, s')"
      and pw: "step_pointwise thr x st W R p dt zn s'"
    by blast
  have pos: "0 \<le> CobaLIFState.g_e s' ! b ! n" "0 \<le> CobaLIFState.g_i s' ! b ! n"
    if b: "b < length x" and n: "n < length R" for b n
  proof -
    have xr: "list_all (\<lambda>a. 0 \<le> a) (x ! b)"
      using xs b by (rule all_entries_rowD)
    have zr: "list_all (\<lambda>a. 0 \<le> a) (CobaLIFState.z st ! b)"
      using zs b sh(1) by (simp add: all_entries_rowD)
    have g0: "0 \<le> CobaLIFState.g_e st ! b ! n" "0 \<le> CobaLIFState.g_i st ! b ! n"
      using all_entriesD[OF ge, of b n] all_entriesD[OF gi, of b n] b n sh by simp_all
    have de: "0 \<le> CobaLIFState.g_e st ! b ! n
        + (- (dt * tau_syn_exc_inv p)) * (CobaLIFState.g_e st ! b ! n)"
      using e0 e1 g0(1) by (rule decay_nonneg)
    have di: "0 \<le> CobaLIFState.g_i st ! b ! n
        + (- (dt * tau_syn_inh_inv p)) * (CobaLIFState.g_i st ! b ! n)"
      using i0 i1 g0(2) by (rule decay_nonneg)
    have d: "0 \<le> dot (x ! b) (map (\<lambda>a. max a 0) (W ! n))"
      "0 \<le> dot (CobaLIFState.z st ! b) (map (\<lambda>a. max a 0) (R ! n))"
      "0 \<le> dot (x ! b) (map (\<lambda>a. max (- a) 0) (W ! n))"
      "0 \<le> dot (CobaLIFState.z st ! b) (map (\<lambda>a. max (- a) 0) (R ! n))"
      using xr zr by (simp_all add: dot_nonneg relu_row_nonneg)
    show "0 \<le> CobaLIFState.g_e s' ! b ! n"
      using step_pointwiseD(1)[OF pw b n] de d by simp
    show "0 \<le> CobaLIFState.g_i s' ! b ! n"
      using step_pointwiseD(2)[OF pw b n] di d by simp
  qed
  have "all_entries (\<lambda>a. 0 \<le> a) (CobaLIFState.g_e s')"
    using step_pointwise_shapes(4)[OF pw] pos(1) by (rule all_entriesI)
  moreover have "all_entries (\<lambda>a. 0 \<le> a) (CobaLIFState.g_i s')"
    using step_pointwise_shapes(5)[OF pw] pos(2) by (rule all_entriesI)
  ultimately show "\<exists>zn s'. coba_lif_step thr x st W R p dt = Inr (zn, s') \<and>
         all_entries (\<lambda>a. 0 \<le> a) (CobaLIFState.g_e s') \<and>
         all_entries (\<lambda>a. 0 \<le> a) (CobaLIFState.g_i s')"
    using res by blast
next
  assume ok: "ff_shapes_ok y fs"
    and ge: "all_entries (\<lambda>a. 0 \<le> a) (CobaLIFFeedForwardState.g_e fs)"
    and gi: "all_entries (\<lambda>a. 0 \<le> a) (CobaLIFFeedForwardState.g_i fs)"
  note sh = ff_shapes_okD[OF ok]
  from coba_lif_feed_forward_step_pointwise[OF ok] obtain zn s'
    where res: "coba_lif_feed_forward_step thr y fs p dt = Inr (zn, s')"
      and pw: "ff_pointwise thr y fs p dt zn s'"
    by blast
  have pos: "0 \<le> CobaLIFFeedForwardState.g_e s' ! b ! n"
      "0 \<le> CobaLIFFeedForwardState.g_i s' ! b ! n"
    if b: "b < length y" and n: "n < ncols y" for b n
  proof -
    have g0: "0 \<le> CobaLIFFeedForwardState.g_e fs ! b ! n"
      "0 \<le> CobaLIFFeedForwardState.g_i fs ! b ! n"
      using all_entriesD[OF ge, of b n] all_entriesD[OF gi, of b n] b n sh by simp_all
    have de: "0 \<le> CobaLIFFeedForwardState.g_e fs ! b ! n
        + (- (dt * tau_syn_exc_inv p)) * (CobaLIFFeedForwardState.g_e fs ! b ! n)"
      using e0 e1 g0(1) by (rule decay_nonneg)
    have di: "0 \<le> CobaLIFFeedForwardState.g_i fs ! b ! n
        + (- (dt * tau_syn_inh_inv p)) * (CobaLIFFeedForwardState.g_i fs ! b ! n)"
      using i0 i1 g0(2) by (rule decay_nonneg)
    show "0 \<le> CobaLIFFeedForwardState.g_e s' ! b ! n"
      using ff_pointwiseD(1)[OF pw b n] de by simp
    show "0 \<le> CobaLIFFeedForwardState.g_i s' ! b ! n"
      using ff_pointwiseD(2)[OF pw b n] di by simp
  qed
  have "all_entries (\<lambda>a. 0 \<le> a) (CobaLIFFeedForwardState.g_e s')"
    using ff_pointwise_shapes(3)[OF pw] pos(1) by (rule all_entriesI)
  moreover have "all_entries (\<lambda>a. 0 \<le> a) (CobaLIFFeedForwardState.g_i s')"
    using ff_pointwise_shapes(4)[OF pw] pos(2) by (rule all_entriesI)
  ultimately show "\<exists>zn s'. coba_lif_feed_forward_step thr y fs p dt = Inr (zn, s') \<and>
         all_entries (\<lambda>a. 0 \<le> a) (CobaLIFFeedForwardState.g_e s') \<and>
         all_entries (\<lambda>a. 0 \<le> a) (CobaLIFFeedForwardState.g_i s')"
    using res by blast
qed

text \<open>
  Two neurons, one input feature, weights of both signs, spikes on the input and in
  the state: with the default parameters and time step all returned conductances
  are non-negative.
\<close>

theorem conductances_nonneg_witness:
  "0 \<le> dt_default * tau_syn_exc_inv CobaLIFParameters_default \<and>
   dt_default * tau_syn_exc_inv CobaLIFParameters_default \<le> 1 \<and>
   0 \<le> dt_default * tau_syn_inh_inv CobaLIFParameters_default \<and>
   dt_default * tau_syn_inh_inv CobaLIFParameters_default \<le> 1 \<and>
   step_shapes_ok [[1]]
      \<lparr> CobaLIFState.z = [[1, 0]], CobaLIFState.v = [[- 30, - 20]],
        CobaLIFState.g_e = [[2, 0]], CobaLIFState.g_i = [[0, 1]] \<rparr>
      [[3], [- 2]] [[0, - 1], [1, 0]] \<and>
   ff_shapes_ok [[1, - 1]]
      \<lparr> CobaLIFFeedForwardState.v = [[- 30, - 20]], CobaLIFFeedForwardState.g_e = [[2, 0]],
        CobaLIFFeedForwardState.g_i = [[0, 1]] \<rparr> \<and>
   all_entries (\<lambda>a. 0 \<le> a) [[2, 0]] \<and> all_entries (\<lambda>a. 0 \<le> a) [[0, 1]] \<and>
   all_entries (\<lambda>a. 0 \<le> a) [[1]] \<and> all_entries (\<lambda>a. 0 \<le> a) [[1, 0]] \<and>
   (\<exists>zn s'. coba_lif_step threshold [[1]]
      \<lparr> CobaLIFState.z = [[1, 0]], CobaLIFState.v = [[- 30, - 20]],
        CobaLIFState.g_e = [[2, 0]], CobaLIFState.g_i = [[0, 1]] \<rparr>
      [[3], [- 2]] [[0, - 1], [1, 0]] CobaLIFParameters_default dt_default = Inr (zn, s') \<and>
      CobaLIFState.g_e s' = [[2 - 2 / 5000 + 3, 1]] \<and>
      CobaLIFState.g_i s' = [[0, 1 - 1 / 5000 + 2]] \<and>
      all_entries (\<lambda>a. 0 \<le> a) (CobaLIFState.g_e s') \<and>
      all_entries (\<lambda>a. 0 \<le> a) (CobaLIFState.g_i s')) \<and>
   (\<exists>zn s'. coba_lif_feed_forward_step threshold [[1, - 1]]
      \<lparr> CobaLIFFeedForwardState.v = [[- 30, - 20]], CobaLIFFeedForwardState.g_e = [[2, 0]],
        CobaLIFFeedForwardState.g_i = [[0, 1]] \<rparr> CobaLIFParameters_default dt_default
        = Inr (zn, s') \<and>
      all_entries (\<lambda>a. 0 \<le> a) (CobaLIFFeedForwardState.g_e s') \<and>
      all_entries (\<lambda>a. 0 \<le> a) (CobaLIFFeedForwardState.g_i s'))"
  using conductances_nonneg[where thr = threshold and dt = dt_default
      and p = CobaLIFParameters_default
      and x = "[[1]]" and W = "[[3], [- 2]]" and R = "[[0, - 1], [1, 0]]"
      and y = "[[1, - 1]]"
      and st = "\<lparr> CobaLIFState.z = [[1, 0]], CobaLIFState.v = [[- 30, - 20]],
        CobaLIFState.g_e = [[2, 0]], CobaLIFState.g_i = [[0, 1]] \<rparr>"
      and fs = "\<lparr> CobaLIFFeedForwardState.v = [[- 30, - 20]],
        CobaLIFFeedForwardState.g_e = [[2, 0]], CobaLIFFeedForwardState.g_i = [[0, 1]] \<rparr>"]
  by (simp add: model_eval all_entries_def)

text \<open>
  C10 as stated does not constrain the previous spikes \<open>state.z\<close>, which the
  recurrent step multiplies with the rectified recurrent weights. With zero
  conductances, zero input, the default parameters and time step, the recurrent
  weight \<open>1\<close> and \<open>state.z = - 1\<close>, the returned excitatory conductance is \<open>- 1\<close>.
\<close>

theorem conductances_nonneg_counterexample:
  "all_entries (\<lambda>a. 0 \<le> a) [[0]] \<and>
   0 \<le> dt_default * tau_syn_exc_inv CobaLIFParameters_default \<and>
   dt_default * tau_syn_exc_inv CobaLIFParameters_default \<le> 1 \<and>
   0 \<le> dt_default * tau_syn_inh_inv CobaLIFParameters_default \<and>
   dt_default * tau_syn_inh_inv CobaLIFParameters_default \<le> 1 \<and>
   (\<exists>zn s'. coba_lif_step threshold [[0]]
      \<lparr> CobaLIFState.z = [[- 1]], CobaLIFState.v = [[- 20]], CobaLIFState.g_e = [[0]],
        CobaLIFState.g_i = [[0]] \<rparr> [[0]] [[1]] CobaLIFParameters_default dt_default
     = Inr (zn, s') \<and> CobaLIFState.g_e s' = [[- 1]] \<and> CobaLIFState.g_e s' ! 0 ! 0 < 0)"
  by (simp add: model_eval all_entries_def)

end
